theory Spec2Isabelle
  imports Complex_Main "HOL-Library.Multiset" "HOL-Library.Sublist"
begin

section \<open>Data model of the MindtPy outer-approximation solver\<close>

text \<open>
  The development embeds \<^verbatim>\<open>pyomo/contrib/mindtpy/outer_approximation.py\<close>:
  the methods \<^verbatim>\<open>solve\<close>, \<^verbatim>\<open>MindtPy_iteration_loop\<close>, \<^verbatim>\<open>check_config\<close>,
  \<^verbatim>\<open>initialize_mip_problem\<close> and \<^verbatim>\<open>deactivate_no_good_cuts_when_fixing_bound\<close> of
  \<^verbatim>\<open>MindtPy_OA_Solver\<close>. Python exceptions are values of \<open>py_error\<close>; an exception does
  not roll back the mutations made before it, so the error branch of a result carries
  the state at the raise.
\<close>

datatype py_error =
  ValueError | IndexError | KeyError | AttributeError | StopIteration | UnboundLocalError
  | RuntimeError

text \<open>
  Python floats that hold bounds: the two infinities and the finite values. Bounds are
  only compared; NaN is not modelled.
\<close>

datatype py_float = Neg_inf | Finite real | Pos_inf

datatype objective_sense = minimize | maximize

text \<open>
  \<^verbatim>\<open>TerminationCondition\<close> as the loop tests it: \<^verbatim>\<open>is tc.optimal\<close>,
  \<^verbatim>\<open>is tc.infeasible\<close>, anything else.
\<close>

datatype termination_condition = tc_optimal | tc_infeasible | tc_other

text \<open>An integer assignment: the tuple returned by \<^verbatim>\<open>get_integer_solution\<close>.\<close>

type_synonym integer_assignment = "int list"

subsection \<open>Configuration\<close>

text \<open>
  The options of the configuration block that the embedded methods read or write.
  \<^verbatim>\<open>add_regularization\<close> and \<^verbatim>\<open>mip_regularization_solver\<close> are \<^verbatim>\<open>None\<close> or a string.
  \<open>bound_tolerance\<close> is the tolerance of the convergence rule of the spec; only the
  termination check modelled from the spec reads it.
\<close>

record mindtpy_config =
  add_regularization :: "string option"
  calculate_dual_at_solution :: bool
  regularization_mip_threads :: int
  threads :: int
  single_tree :: bool
  add_cuts_at_incumbent :: bool
  reduce_level_coef :: bool
  use_bb_tree_incumbent :: bool
  mip_regularization_solver :: "string option"
  mip_solver :: string
  iteration_limit :: int
  add_slack :: bool
  heuristic_nonconvex :: bool
  equality_relaxation :: bool
  init_strategy :: string
  move_objective :: bool
  integer_to_binary :: bool
  use_mcpp :: bool
  partition_obj_nonlinear_terms :: bool
  add_no_good_cuts :: bool
  use_tabu_list :: bool
  solution_pool :: bool
  num_solution_iteration :: int
  fp_projcuts :: bool
  bound_tolerance :: real

subsection \<open>Pyomo models\<close>

text \<open>
  Modelled from the spec: the model classes of \<^verbatim>\<open>pyomo.core\<close> are not among the embedded
  sources; the spec's model interface is "clone-with-independent-mutation,
  activate/deactivate constraint or objective, enumerate variables/constraints/objective".
  A model is a value, so \<^verbatim>\<open>clone()\<close> is a copy. Objective and constraint data objects
  live in the lists \<open>objectives\<close> and \<open>constraints\<close> in component order; the utility
  block refers to them by position, so that activating through a reference changes the
  object every holder sees. \<open>poly_degree\<close> is what \<^verbatim>\<open>expr.polynomial_degree()\<close>
  returns (\<^verbatim>\<open>None\<close> for a non-polynomial expression).
\<close>

record objective_data =
  obj_active :: bool
  obj_sense :: objective_sense
  poly_degree :: "nat option"

record constraint_data =
  con_active :: bool
  con_body :: nat

text \<open>
  The block \<^verbatim>\<open>MindtPy_utils.cuts\<close>: a \<^verbatim>\<open>ConstraintList\<close> is the list of its members,
  oldest first; \<open>None\<close> is a list that has not been declared.
\<close>

record cuts_block =
  oa_cuts :: "constraint_data list option"
  fp_orthogonality_cuts :: "constraint_data list option"

record util_block =
  objective_list :: "nat list"
  objective_constr :: "nat option"
  objective :: "nat option"
  cuts :: cuts_block

record pyomo_model =
  objectives :: "objective_data list"
  constraints :: "constraint_data list"
  dual :: "bool option"
  variable_values :: "real option list"
  MindtPy_utils :: util_block

subsection \<open>Solver results\<close>

text \<open>
  The results object of a main solve as the loop reads it: the termination condition
  and the solution pool of the persistent solver model, by names with objective values
  for CPLEX (\<^verbatim>\<open>pool.get_names\<close>, \<^verbatim>\<open>pool.get_objective_value\<close>) and by position for
  Gurobi (\<^verbatim>\<open>SolCount\<close>, \<^verbatim>\<open>PoolObjVal\<close>).
\<close>

datatype pool_name = Cplex_name string | Gurobi_index nat

record mip_results =
  termination_condition :: termination_condition
  cplex_pool :: "(string \<times> real) list"
  gurobi_pool :: "real list"

record solver_results =
  num_nodes :: "int option"
  results_info :: nat

text \<open>
  The states of the iteration controller named by the spec; \<open>termination_reason\<close>
  below holds one of them.
\<close>

datatype controller_state =
  RUNNING | CONVERGED | MAIN_INFEASIBLE | CYCLING_STOP | LIMIT_STOP | ERROR_STOP

subsection \<open>The solver object\<close>

text \<open>
  The attributes of \<^verbatim>\<open>self\<close> that the embedded methods touch, and the primal bound
  and the termination reason that the termination check of the spec needs. Everything
  else the solver object holds is the extension slot of the record, which the
  collaborators may use freely. The configuration block (\<^verbatim>\<open>self.config\<close>, the \<^verbatim>\<open>config\<close> every method
  passes on) is kept beside the solver: \<^verbatim>\<open>check_config\<close> rewrites it, and after that
  the embedded methods only read it; the collaborators receive it as an argument and are
  taken to leave it as it is.
\<close>

record mindtpy_solver =
  regularization_mip_type :: "string option"
  working_model :: pyomo_model
  mip :: pyomo_model
  jacobians :: nat
  results :: solver_results
  mip_objective_polynomial_degree :: "nat set"
  mip_constraint_polynomial_degree :: "nat set"
  initial_var_values :: "real option list"
  best_solution_found :: "pyomo_model option"
  best_solution_found_time :: "real option"
  nlp_iter :: int
  mip_iter :: int
  mip_subiter :: int
  primal_bound :: py_float
  dual_bound :: py_float
  dual_bound_progress :: "py_float list"
  curr_int_sol :: integer_assignment
  integer_list :: "integer_assignment list"
  should_terminate :: bool
  objective_sense :: objective_sense
  termination_reason :: controller_state

section \<open>Collaborators and the call log\<close>

text \<open>
  The methods of the base class \<^verbatim>\<open>_MindtPyAlgorithm\<close>, the utilities of
  \<^verbatim>\<open>pyomo.contrib.mindtpy.util\<close> and \<^verbatim>\<open>pyomo.contrib.gdpopt.util\<close> and the two
  callbacks of the configuration are not part of the embedded file. They are parameters:
  a record of functions, each taking the arguments the source passes and the solver
  object, and returning its value and the solver object it leaves behind.
\<close>

type_synonym nlp_result = nat

record 'z collaborators =
  base_check_config ::
    "mindtpy_config \<times> 'z mindtpy_solver_scheme \<Rightarrow> mindtpy_config \<times> 'z mindtpy_solver_scheme"
  set_up_solve_data ::
    "pyomo_model \<Rightarrow> mindtpy_config \<Rightarrow> 'z mindtpy_solver_scheme \<Rightarrow> 'z mindtpy_solver_scheme"
  integer_to_binary_transformation :: "pyomo_model \<Rightarrow> pyomo_model"
  create_utility_block :: "pyomo_model \<Rightarrow> pyomo_model"
  model_is_valid :: "mindtpy_config \<Rightarrow> 'z mindtpy_solver_scheme \<Rightarrow> bool \<times> 'z mindtpy_solver_scheme"
  setup_results_object :: "mindtpy_config \<Rightarrow> 'z mindtpy_solver_scheme \<Rightarrow> 'z mindtpy_solver_scheme"
  process_objective ::
    "mindtpy_config \<Rightarrow> bool \<Rightarrow> bool \<Rightarrow> bool \<Rightarrow> bool \<Rightarrow> nat set \<Rightarrow> nat set
       \<Rightarrow> 'z mindtpy_solver_scheme \<Rightarrow> 'z mindtpy_solver_scheme"
  add_var_bound :: "pyomo_model \<Rightarrow> mindtpy_config \<Rightarrow> pyomo_model"
  calc_jacobians :: "pyomo_model \<Rightarrow> mindtpy_config \<Rightarrow> nat"
  MindtPy_initialization :: "mindtpy_config \<Rightarrow> 'z mindtpy_solver_scheme \<Rightarrow> 'z mindtpy_solver_scheme"
  solve_main ::
    "mindtpy_config \<Rightarrow> bool \<Rightarrow> 'z mindtpy_solver_scheme
       \<Rightarrow> (pyomo_model \<times> mip_results option) \<times> 'z mindtpy_solver_scheme"
  handle_main_optimal ::
    "pyomo_model \<Rightarrow> mindtpy_config \<Rightarrow> 'z mindtpy_solver_scheme \<Rightarrow> 'z mindtpy_solver_scheme"
  handle_main_infeasible ::
    "pyomo_model \<Rightarrow> mindtpy_config \<Rightarrow> 'z mindtpy_solver_scheme \<Rightarrow> 'z mindtpy_solver_scheme"
  handle_main_other_conditions ::
    "pyomo_model \<Rightarrow> mip_results \<Rightarrow> mindtpy_config \<Rightarrow> 'z mindtpy_solver_scheme
       \<Rightarrow> 'z mindtpy_solver_scheme"
  call_after_main_solve :: "pyomo_model \<Rightarrow> 'z mindtpy_solver_scheme \<Rightarrow> 'z mindtpy_solver_scheme"
  handle_regularization_main_tc ::
    "pyomo_model \<Rightarrow> mip_results option \<Rightarrow> mindtpy_config \<Rightarrow> 'z mindtpy_solver_scheme
       \<Rightarrow> 'z mindtpy_solver_scheme"
  get_integer_solution :: "pyomo_model \<Rightarrow> bool \<Rightarrow> integer_assignment"
  copy_var_list_values :: "pyomo_model \<Rightarrow> pyomo_model \<Rightarrow> mindtpy_config \<Rightarrow> pyomo_model"
  solve_subproblem ::
    "mindtpy_config \<Rightarrow> 'z mindtpy_solver_scheme
       \<Rightarrow> (pyomo_model \<times> nlp_result) \<times> 'z mindtpy_solver_scheme"
  handle_nlp_subproblem_tc ::
    "pyomo_model \<Rightarrow> nlp_result \<Rightarrow> mindtpy_config \<Rightarrow> 'z mindtpy_solver_scheme
       \<Rightarrow> 'z mindtpy_solver_scheme"
  call_after_subproblem_solve ::
    "pyomo_model \<Rightarrow> 'z mindtpy_solver_scheme \<Rightarrow> 'z mindtpy_solver_scheme"
  algorithm_should_terminate ::
    "mindtpy_config \<Rightarrow> bool \<Rightarrow> 'z mindtpy_solver_scheme \<Rightarrow> bool \<times> 'z mindtpy_solver_scheme"
  copy_var_list_values_from_solution_pool ::
    "pyomo_model \<Rightarrow> pyomo_model \<Rightarrow> mindtpy_config \<Rightarrow> mip_results \<Rightarrow> pool_name \<Rightarrow> pyomo_model"
  fix_dual_bound ::
    "mindtpy_config \<Rightarrow> bool \<Rightarrow> 'z mindtpy_solver_scheme \<Rightarrow> 'z mindtpy_solver_scheme"
  load_solution :: "'z mindtpy_solver_scheme \<Rightarrow> 'z mindtpy_solver_scheme"
  get_integral_info :: "'z mindtpy_solver_scheme \<Rightarrow> 'z mindtpy_solver_scheme"
  update_result :: "'z mindtpy_solver_scheme \<Rightarrow> 'z mindtpy_solver_scheme"

text \<open>
  The call log is a ghost of the model: every call of a collaborator that can act on the
  solver object or on a model is appended to it, with the solver object as it was when
  the call was made. \<open>Solve_main b\<close> is \<^verbatim>\<open>solve_main\<close> with
  \<^verbatim>\<open>regularization_problem=b\<close>; \<open>Solve_subproblem n\<close> carries the pool entry it is
  made for (\<open>None\<close> outside the solution pool); \<open>Skip_explored n\<close> marks the
  \<^verbatim>\<open>continue\<close> of line 264, where the source logs that the combination of entry \<open>n\<close>
  has been explored.
\<close>

datatype event =
    Set_up_solve_data | Integer_to_binary | Create_utility_block | Model_is_valid
  | Setup_results_object | Process_objective | Add_var_bound | Calc_jacobians
  | Call_MindtPy_initialization | Load_solution | Get_integral_info | Update_result
  | Solve_main bool
  | Handle_main_optimal | Handle_main_infeasible | Handle_main_other_conditions
  | Call_after_main_solve | Handle_regularization_main_tc | Copy_var_list_values
  | Solve_subproblem "pool_name option" | Handle_nlp_subproblem_tc | Call_after_subproblem_solve
  | Algorithm_should_terminate bool
  | Copy_from_solution_pool pool_name | Skip_explored pool_name
  | Fix_dual_bound bool

type_synonym 'z trace = "(event \<times> 'z mindtpy_solver_scheme) list"

type_synonym 'z run = "'z mindtpy_solver_scheme \<times> 'z trace"

definition call :: "event \<Rightarrow> ('z mindtpy_solver_scheme \<Rightarrow> 'z mindtpy_solver_scheme) \<Rightarrow> 'z run \<Rightarrow> 'z run" where
  "call ev f st = (f (fst st), snd st @ [(ev, fst st)])"

definition call_ret ::
  "event \<Rightarrow> ('z mindtpy_solver_scheme \<Rightarrow> 'a \<times> 'z mindtpy_solver_scheme) \<Rightarrow> 'z run \<Rightarrow> 'a \<times> 'z run" where
  "call_ret ev f st = (fst (f (fst st)), (snd (f (fst st)), snd st @ [(ev, fst st)]))"

definition assign :: "('z mindtpy_solver_scheme \<Rightarrow> 'z mindtpy_solver_scheme) \<Rightarrow> 'z run \<Rightarrow> 'z run" where
  "assign f st = (f (fst st), snd st)"

section \<open>Configuration checking\<close>

text \<open>
  \<^verbatim>\<open>check_config\<close>, lines 325 to 364, in the order of the source: the regularization
  block (lines 327 to 340), the single-tree block (341 to 351), the relaxation and
  objective options (352 to 358), the type of the regularization problem (359 to 363),
  then the base class's \<^verbatim>\<open>check_config\<close>. The \<^verbatim>\<open>raise ValueError\<close> of line 346 comes
  after the assignments of lines 343 and 344, so the error carries the configuration
  with both made. Logging is left out.
\<close>

definition check_regularization :: "mindtpy_config \<Rightarrow> mindtpy_config" where
  "check_regularization c =
     (if add_regularization c \<noteq> None then
        (let c1 = (if add_regularization c \<in> Some ` {''grad_lag'', ''hess_lag'', ''hess_only_lag'', ''sqp_lag''}
                   then c\<lparr>calculate_dual_at_solution := True\<rparr> else c);
             c2 = (if regularization_mip_threads c1 = 0 \<and> threads c1 > 0
                   then c1\<lparr>regularization_mip_threads := threads c1\<rparr> else c1);
             c3 = (if single_tree c2 then
                     (let c' = c2\<lparr>add_cuts_at_incumbent := True\<rparr>
                      in if \<not> (reduce_level_coef c' \<or> use_bb_tree_incumbent c')
                         then c'\<lparr>use_bb_tree_incumbent := True\<rparr> else c')
                   else c2)
         in if mip_regularization_solver c3 = None
            then c3\<lparr>mip_regularization_solver := Some (mip_solver c3)\<rparr> else c3)
      else c)"

definition check_single_tree :: "mindtpy_config \<Rightarrow> (py_error \<times> mindtpy_config) + mindtpy_config" where
  "check_single_tree c =
     (if single_tree c then
        (let c1 = c\<lparr>iteration_limit := 1\<rparr>;
             c2 = c1\<lparr>add_slack := False\<rparr>
         in if mip_solver c2 \<notin> {''cplex_persistent'', ''gurobi_persistent''}
            then Inl (ValueError, c2)
            else Inr (if threads c2 > 1 then c2\<lparr>threads := 1\<rparr> else c2))
      else Inr c)"

definition check_relaxation :: "mindtpy_config \<Rightarrow> mindtpy_config" where
  "check_relaxation c =
     (let c1 = (if heuristic_nonconvex c
                then c\<lparr>equality_relaxation := True, add_slack := True\<rparr> else c);
          c2 = (if equality_relaxation c1 then c1\<lparr>calculate_dual_at_solution := True\<rparr> else c1)
      in if init_strategy c2 = ''FP'' \<or> add_regularization c2 \<noteq> None
         then c2\<lparr>move_objective := True\<rparr> else c2)"

definition regularization_type :: "mindtpy_config \<Rightarrow> string option \<Rightarrow> string option" where
  "regularization_type c old =
     (if add_regularization c \<noteq> None then
        (if add_regularization c \<in> Some ` {''level_L1'', ''level_L_infinity'', ''grad_lag''}
         then Some ''MILP''
         else if add_regularization c \<in> Some ` {''level_L2'', ''hess_lag'', ''hess_only_lag'', ''sqp_lag''}
         then Some ''MIQP''
         else old)
      else old)"

definition check_config ::
  "'z collaborators \<Rightarrow> mindtpy_config \<Rightarrow> 'z mindtpy_solver_scheme
     \<Rightarrow> (py_error \<times> mindtpy_config \<times> 'z mindtpy_solver_scheme)
        + (mindtpy_config \<times> 'z mindtpy_solver_scheme)" where
  "check_config env c s =
     (case check_single_tree (check_regularization c) of
        Inl (e, c1) \<Rightarrow> Inl (e, c1, s)
      | Inr c1 \<Rightarrow>
          (let c2 = check_relaxation c1
           in Inr (base_check_config env
                (c2, s\<lparr>regularization_mip_type := regularization_type c2 (regularization_mip_type s)\<rparr>))))"

section \<open>The iteration loop\<close>

text \<open>
  \<^verbatim>\<open>MindtPy_iteration_loop\<close>, lines 155 to 323. One pass of the \<^verbatim>\<open>while\<close> body is
  \<open>iteration\<close>, cut into the blocks of the source; \<open>flow\<close> says whether a block ran
  into a \<^verbatim>\<open>break\<close> of the \<^verbatim>\<open>while\<close> loop. The local \<^verbatim>\<open>last_iter_cuts\<close> is passed
  along as a boolean.
\<close>

datatype flow = Proceed | Break

text \<open>
  Lines 174 to 193: the main solve and its handlers. A result of \<^verbatim>\<open>None\<close> and an
  infeasible main problem leave the loop.
\<close>

definition main_solve_block ::
  "'z collaborators \<Rightarrow> mindtpy_config \<Rightarrow> bool \<Rightarrow> 'z run
     \<Rightarrow> flow \<times> bool \<times> pyomo_model \<times> mip_results option \<times> 'z run" where
  "main_solve_block env c last_iter_cuts st =
     (let st1 = assign (\<lambda>s. s\<lparr>mip_subiter := 0\<rparr>) st;
          ret = call_ret (Solve_main False) (solve_main env c False) st1;
          main_mip = fst (fst ret);
          main_mip_results = snd (fst ret);
          st2 = snd ret
      in case main_mip_results of
           None \<Rightarrow> (Break, last_iter_cuts, main_mip, None, st2)
         | Some r \<Rightarrow>
             if \<not> single_tree c then
               (if termination_condition r = tc_optimal then
                  (Proceed, last_iter_cuts, main_mip, Some r,
                   call Call_after_main_solve (call_after_main_solve env main_mip)
                     (call Handle_main_optimal (handle_main_optimal env main_mip c) st2))
                else if termination_condition r = tc_infeasible then
                  (Break, True, main_mip, Some r,
                   call Handle_main_infeasible (handle_main_infeasible env main_mip c) st2)
                else
                  (Proceed, last_iter_cuts, main_mip, Some r,
                   call Call_after_main_solve (call_after_main_solve env main_mip)
                     (call Handle_main_other_conditions
                        (handle_main_other_conditions env main_mip r c) st2)))
             else (Proceed, last_iter_cuts, main_mip, Some r, st2))"

text \<open>
  Lines 195 to 200: the regularized main solve. It rebinds \<^verbatim>\<open>main_mip\<close> and
  \<^verbatim>\<open>main_mip_results\<close>. \<^verbatim>\<open>self.dual_bound_progress[0]\<close> raises \<^verbatim>\<open>IndexError\<close> on an
  empty list.
\<close>

definition regularization_block ::
  "'z collaborators \<Rightarrow> mindtpy_config \<Rightarrow> pyomo_model \<Rightarrow> mip_results option \<Rightarrow> 'z run
     \<Rightarrow> (py_error \<times> 'z run) + (pyomo_model \<times> mip_results option \<times> 'z run)" where
  "regularization_block env c main_mip main_mip_results st =
     (if add_regularization c \<noteq> None \<and> best_solution_found (fst st) \<noteq> None \<and> \<not> single_tree c then
        (case dual_bound_progress (fst st) of
           [] \<Rightarrow> Inl (IndexError, st)
         | b0 # _ \<Rightarrow>
             if dual_bound (fst st) \<noteq> b0 then
               (let ret = call_ret (Solve_main True) (solve_main env c True) st
                in Inr (fst (fst ret), snd (fst ret),
                        call Handle_regularization_main_tc
                          (handle_regularization_main_tc env (fst (fst ret)) (snd (fst ret)) c)
                          (snd ret)))
             else Inr (main_mip, main_mip_results, st))
      else Inr (main_mip, main_mip_results, st))"

text \<open>Lines 202 to 212: regularization in single-tree mode.\<close>

definition single_tree_regularization_block ::
  "'z collaborators \<Rightarrow> mindtpy_config \<Rightarrow> pyomo_model \<Rightarrow> 'z run \<Rightarrow> 'z run" where
  "single_tree_regularization_block env c main_mip st =
     (if add_regularization c \<noteq> None \<and> single_tree c then
        (let st1 = assign (\<lambda>s. s\<lparr>curr_int_sol := get_integer_solution env (mip s) True\<rparr>) st;
             st2 = call Copy_var_list_values
                     (\<lambda>s. s\<lparr>working_model := copy_var_list_values env main_mip (working_model s) c\<rparr>) st1
         in if curr_int_sol (fst st2) \<notin> set (integer_list (fst st2)) then
              (let ret = call_ret (Solve_subproblem None) (solve_subproblem env c) st2
               in call Handle_nlp_subproblem_tc
                    (handle_nlp_subproblem_tc env (fst (fst ret)) (snd (fst ret)) c) (snd ret))
            else st2)
      else st)"

text \<open>
  Lines 269 to 276: one subproblem solve with its handler, its callback and the
  termination check that follows it. The result is the value of
  \<^verbatim>\<open>algorithm_should_terminate(config, check_cycling=False)\<close>.
\<close>

definition solve_and_check ::
  "'z collaborators \<Rightarrow> mindtpy_config \<Rightarrow> pool_name option \<Rightarrow> 'z run \<Rightarrow> bool \<times> 'z run" where
  "solve_and_check env c entry st =
     (let ret = call_ret (Solve_subproblem entry) (solve_subproblem env c) st;
          fixed_nlp = fst (fst ret);
          st1 = call Handle_nlp_subproblem_tc
                  (handle_nlp_subproblem_tc env fixed_nlp (snd (fst ret)) c) (snd ret);
          st2 = call Call_after_subproblem_solve (call_after_subproblem_solve env fixed_nlp) st1
      in call_ret (Algorithm_should_terminate False) (algorithm_should_terminate env c False) st2)"

text \<open>
  Lines 231 to 248: the names and objective values of the solution pool, by solver.
  With any other solver the name \<^verbatim>\<open>solution_pool_names\<close> is never bound (\<open>None\<close>).
  \<^verbatim>\<open>list.sort\<close> is stable, also with \<^verbatim>\<open>reverse=True\<close>, where entries with equal keys
  keep their order: it sorts the reversed list and reverses the result.
\<close>

definition solution_name_obj :: "mindtpy_config \<Rightarrow> mip_results \<Rightarrow> (pool_name \<times> real) list option" where
  "solution_name_obj c r =
     (if mip_solver c = ''cplex_persistent'' then
        Some (map (\<lambda>e. (Cplex_name (fst e), snd e)) (cplex_pool r))
      else if mip_solver c = ''gurobi_persistent'' then
        Some (map (\<lambda>i. (Gurobi_index i, gurobi_pool r ! i)) [0..<length (gurobi_pool r)])
      else None)"

definition sort_solution_pool ::
  "objective_sense \<Rightarrow> (pool_name \<times> real) list \<Rightarrow> (pool_name \<times> real) list" where
  "sort_solution_pool sense xs =
     (if sense = maximize then rev (sort_key snd (rev xs)) else sort_key snd xs)"

text \<open>
  Lines 249 to 281: the \<^verbatim>\<open>for\<close> loop over the sorted pool. Its two \<^verbatim>\<open>break\<close>s leave
  the \<^verbatim>\<open>for\<close> loop, not the \<^verbatim>\<open>while\<close> loop around it. The result is
  \<^verbatim>\<open>last_iter_cuts\<close> and the state.
\<close>

fun explore_solution_pool ::
  "'z collaborators \<Rightarrow> mindtpy_config \<Rightarrow> mip_results \<Rightarrow> (pool_name \<times> real) list \<Rightarrow> int \<Rightarrow> bool
     \<Rightarrow> 'z run \<Rightarrow> bool \<times> 'z run" where
  "explore_solution_pool env c r [] counter last_iter_cuts st = (last_iter_cuts, st)"
| "explore_solution_pool env c r (e # rest) counter last_iter_cuts st =
     (let st1 =
            (if counter \<ge> 1 then
               assign (\<lambda>s. s\<lparr>curr_int_sol := get_integer_solution env (working_model s) False\<rparr>)
                 (call (Copy_from_solution_pool (fst e))
                    (\<lambda>s. s\<lparr>working_model :=
                            copy_var_list_values_from_solution_pool env (mip s) (working_model s) c r (fst e)\<rparr>)
                    st)
             else st)
      in if counter \<ge> 1 \<and> curr_int_sol (fst st1) \<in> set (integer_list (fst st1)) then
           explore_solution_pool env c r rest counter last_iter_cuts
             (call (Skip_explored (fst e)) (\<lambda>s. s) st1)
         else
           (let st2 = (if counter \<ge> 1
                       then assign (\<lambda>s. s\<lparr>integer_list := integer_list s @ [curr_int_sol s]\<rparr>) st1
                       else st1);
                chk = solve_and_check env c (Some (fst e)) st2
            in if fst chk then (True, snd chk)
               else if counter + 1 \<ge> num_solution_iteration c then (last_iter_cuts, snd chk)
               else explore_solution_pool env c r rest (counter + 1) last_iter_cuts (snd chk)))"

text \<open>
  Lines 216 to 281: the subproblem. In the solution-pool branch \<^verbatim>\<open>main_mip_results\<close>
  is the value of the last main solve, regularized or not; reading the pool of
  \<^verbatim>\<open>None\<close> raises \<^verbatim>\<open>AttributeError\<close>.
\<close>

definition subproblem_block ::
  "'z collaborators \<Rightarrow> mindtpy_config \<Rightarrow> mip_results option \<Rightarrow> bool \<Rightarrow> 'z run
     \<Rightarrow> (py_error \<times> 'z run) + (flow \<times> bool \<times> 'z run)" where
  "subproblem_block env c main_mip_results last_iter_cuts st =
     (if \<not> single_tree c then
        (if \<not> solution_pool c then
           (let chk = solve_and_check env c None st
            in if fst chk then Inr (Break, True, snd chk)
               else Inr (Proceed, last_iter_cuts, snd chk))
         else if mip_solver c = ''cplex_persistent'' \<or> mip_solver c = ''gurobi_persistent'' then
           (case main_mip_results of
              None \<Rightarrow> Inl (AttributeError, st)
            | Some r \<Rightarrow>
                (case solution_name_obj c r of
                   None \<Rightarrow> Inl (UnboundLocalError, st)
                 | Some xs \<Rightarrow>
                     Inr (Proceed,
                          explore_solution_pool env c r
                            (sort_solution_pool (objective_sense (fst st)) xs) 0 last_iter_cuts st)))
         else Inl (UnboundLocalError, st))
      else Inr (Proceed, last_iter_cuts, st))"

text \<open>The body of the \<^verbatim>\<open>while\<close> loop, lines 174 to 281.\<close>

definition iteration ::
  "'z collaborators \<Rightarrow> mindtpy_config \<Rightarrow> bool \<Rightarrow> 'z run
     \<Rightarrow> (py_error \<times> 'z run) + (flow \<times> bool \<times> 'z run)" where
  "iteration env c last_iter_cuts st =
     (case main_solve_block env c last_iter_cuts st of
        (Break, lic, main_mip, main_mip_results, st1) \<Rightarrow> Inr (Break, lic, st1)
      | (Proceed, lic, main_mip, main_mip_results, st1) \<Rightarrow>
          (case regularization_block env c main_mip main_mip_results st1 of
             Inl err \<Rightarrow> Inl err
           | Inr (main_mip', main_mip_results', st2) \<Rightarrow>
               (let st3 = single_tree_regularization_block env c main_mip' st2;
                    chk = call_ret (Algorithm_should_terminate True)
                            (algorithm_should_terminate env c True) st3
                in if fst chk then Inr (Break, False, snd chk)
                   else subproblem_block env c main_mip_results' lic (snd chk))))"

text \<open>
  The \<^verbatim>\<open>while\<close> loop. The iteration counter is advanced by the collaborators, so the
  loop need not end: it runs on fuel, and \<open>None\<close> is a loop that has not ended when the
  fuel is used up.
\<close>

fun while_loop ::
  "nat \<Rightarrow> 'z collaborators \<Rightarrow> mindtpy_config \<Rightarrow> bool \<Rightarrow> 'z run
     \<Rightarrow> ((py_error \<times> 'z run) + (bool \<times> 'z run)) option" where
  "while_loop 0 env c last_iter_cuts st =
     (if mip_iter (fst st) < iteration_limit c then None
      else Some (Inr (last_iter_cuts, st)))"
| "while_loop (Suc n) env c last_iter_cuts st =
     (if mip_iter (fst st) < iteration_limit c then
        (case iteration env c last_iter_cuts st of
           Inl err \<Rightarrow> Some (Inl err)
         | Inr (Break, lic, st') \<Rightarrow> Some (Inr (lic, st'))
         | Inr (Proceed, lic, st') \<Rightarrow> while_loop n env c lic st')
      else Some (Inr (last_iter_cuts, st)))"

text \<open>Lines 318 to 321: the correction of the dual bound after the loop.\<close>

definition bound_correction ::
  "'z collaborators \<Rightarrow> mindtpy_config \<Rightarrow> bool \<Rightarrow> 'z run \<Rightarrow> 'z run" where
  "bound_correction env c last_iter_cuts st =
     (if (add_no_good_cuts c \<or> use_tabu_list c) \<and> \<not> should_terminate (fst st)
         \<and> add_regularization c = None
      then call (Fix_dual_bound last_iter_cuts) (fix_dual_bound env c last_iter_cuts) st
      else st)"

definition MindtPy_iteration_loop ::
  "nat \<Rightarrow> 'z collaborators \<Rightarrow> mindtpy_config \<Rightarrow> 'z run \<Rightarrow> ((py_error \<times> 'z run) + 'z run) option" where
  "MindtPy_iteration_loop fuel env c st =
     (case while_loop fuel env c False st of
        None \<Rightarrow> None
      | Some (Inl err) \<Rightarrow> Some (Inl err)
      | Some (Inr (last_iter_cuts, st')) \<Rightarrow> Some (Inr (bound_correction env c last_iter_cuts st')))"

section \<open>Splitting off the main problem\<close>

text \<open>
  Lines 110 to 115 of \<^verbatim>\<open>solve\<close>: with a handleable degree of the original objective and
  regularization requested, the original objective is used for the main problem. The
  three statements run in the order of the source; \<^verbatim>\<open>objective_list[0]\<close> on an empty
  list raises \<^verbatim>\<open>IndexError\<close>, a missing \<^verbatim>\<open>objective_constr\<close> or \<^verbatim>\<open>objective\<close> raises
  \<^verbatim>\<open>AttributeError\<close>.
\<close>

definition set_obj_active :: "nat \<Rightarrow> bool \<Rightarrow> pyomo_model \<Rightarrow> pyomo_model" where
  "set_obj_active i b m = m\<lparr>objectives := (objectives m)[i := (objectives m ! i)\<lparr>obj_active := b\<rparr>]\<rparr>"

definition set_con_active :: "nat \<Rightarrow> bool \<Rightarrow> pyomo_model \<Rightarrow> pyomo_model" where
  "set_con_active k b m = m\<lparr>constraints := (constraints m)[k := (constraints m ! k)\<lparr>con_active := b\<rparr>]\<rparr>"

definition use_original_objective ::
  "mindtpy_config \<Rightarrow> nat set \<Rightarrow> pyomo_model \<Rightarrow> (py_error \<times> pyomo_model) + pyomo_model" where
  "use_original_objective c handleable m =
     (case objective_list (MindtPy_utils m) of
        [] \<Rightarrow> Inl (IndexError, m)
      | i # _ \<Rightarrow>
          if poly_degree (objectives m ! i) \<in> Some ` handleable \<and> add_regularization c \<noteq> None then
            (let m1 = set_obj_active i True m
             in case objective_constr (MindtPy_utils m1) of
                  None \<Rightarrow> Inl (AttributeError, m1)
                | Some k \<Rightarrow>
                    (let m2 = set_con_active k False m1
                     in case objective (MindtPy_utils m2) of
                          None \<Rightarrow> Inl (AttributeError, m2)
                        | Some j \<Rightarrow> Inr (set_obj_active j False m2)))
          else Inr m)"

text \<open>
  \<^verbatim>\<open>initialize_mip_problem\<close>, lines 367 to 391. \<^verbatim>\<open>next(...)\<close> on the active objectives
  raises \<^verbatim>\<open>StopIteration\<close> when there is none; \<^verbatim>\<open>m.dual\<close> raises \<^verbatim>\<open>AttributeError\<close>
  when the suffix is not declared. \<^verbatim>\<open>self.mip\<close> is bound to the clone before the clone
  is changed, so an error leaves the clone as far as it got.

  Assigning a new \<^verbatim>\<open>ConstraintList\<close> to a name under which the block already owns a
  cut list raises \<^verbatim>\<open>RuntimeError\<close> (the components of the old list are still declared
  on the block); on a block without a list of that name it declares an empty one.
\<close>

fun first_active :: "objective_data list \<Rightarrow> nat option" where
  "first_active [] = None"
| "first_active (x # xs) = (if obj_active x then Some 0 else map_option Suc (first_active xs))"

definition new_oa_cuts :: "pyomo_model \<Rightarrow> pyomo_model" where
  "new_oa_cuts m =
     m\<lparr>MindtPy_utils := (MindtPy_utils m)\<lparr>cuts := (cuts (MindtPy_utils m))\<lparr>oa_cuts := Some []\<rparr>\<rparr>\<rparr>"

definition new_fp_orthogonality_cuts :: "pyomo_model \<Rightarrow> pyomo_model" where
  "new_fp_orthogonality_cuts m =
     m\<lparr>MindtPy_utils :=
         (MindtPy_utils m)\<lparr>cuts := (cuts (MindtPy_utils m))\<lparr>fp_orthogonality_cuts := Some []\<rparr>\<rparr>\<rparr>"

definition declare_oa_cuts :: "pyomo_model \<Rightarrow> py_error + pyomo_model" where
  "declare_oa_cuts m =
     (case oa_cuts (cuts (MindtPy_utils m)) of
        Some old \<Rightarrow> Inl RuntimeError
      | None \<Rightarrow> Inr (new_oa_cuts m))"

definition declare_fp_orthogonality_cuts :: "pyomo_model \<Rightarrow> py_error + pyomo_model" where
  "declare_fp_orthogonality_cuts m =
     (case fp_orthogonality_cuts (cuts (MindtPy_utils m)) of
        Some old \<Rightarrow> Inl RuntimeError
      | None \<Rightarrow> Inr (new_fp_orthogonality_cuts m))"

definition initialize_mip_problem ::
  "'z collaborators \<Rightarrow> mindtpy_config \<Rightarrow> 'z run \<Rightarrow> (py_error \<times> 'z run) + 'z run" where
  "initialize_mip_problem env c st =
     (let st1 = (if single_tree c
                 then call Add_var_bound
                        (\<lambda>s. s\<lparr>working_model := add_var_bound env (working_model s) c\<rparr>) st
                 else st);
          m = working_model (fst st1)
      in case first_active (objectives m) of
           None \<Rightarrow> Inl (StopIteration, assign (\<lambda>s. s\<lparr>mip := m\<rparr>) st1)
         | Some i \<Rightarrow>
             (let m1 = set_obj_active i False m
              in if calculate_dual_at_solution c \<and> dual m1 = None then
                   Inl (AttributeError, assign (\<lambda>s. s\<lparr>mip := m1\<rparr>) st1)
                 else
                   (let m2 = (if calculate_dual_at_solution c then m1\<lparr>dual := Some False\<rparr> else m1);
                        st2 = call Calc_jacobians (\<lambda>s. s\<lparr>jacobians := calc_jacobians env m2 c\<rparr>)
                                (assign (\<lambda>s. s\<lparr>mip := m2\<rparr>) st1)
                    in case declare_oa_cuts m2 of
                         Inl e \<Rightarrow> Inl (e, st2)
                       | Inr m3 \<Rightarrow>
                           if init_strategy c = ''FP'' then
                             (case declare_fp_orthogonality_cuts m3 of
                                Inl e \<Rightarrow> Inl (e, assign (\<lambda>s. s\<lparr>mip := m3\<rparr>) st2)
                              | Inr m4 \<Rightarrow>
                                  (let st3 = assign (\<lambda>s. s\<lparr>mip := m4\<rparr>) st2
                                   in if fp_projcuts c then
                                        (case declare_fp_orthogonality_cuts (working_model (fst st3)) of
                                           Inl e \<Rightarrow> Inl (e, st3)
                                         | Inr w \<Rightarrow> Inr (assign (\<lambda>s. s\<lparr>working_model := w\<rparr>) st3))
                                      else Inr st3))
                           else Inr (assign (\<lambda>s. s\<lparr>mip := m3\<rparr>) st2))))"

section \<open>Bound correction: the eviction step\<close>

text \<open>
  Modelled from the spec: \<^verbatim>\<open>ConstraintList\<close> is a class of \<^verbatim>\<open>pyomo.core\<close> and not among
  the embedded sources. It is an ordered, append-only collection of cuts whose members
  are addressed from 1 (the first cut added has index 1, the most recent one index
  \<^verbatim>\<open>len\<close>); any other index raises \<^verbatim>\<open>KeyError\<close>.
\<close>

definition constraint_list_index :: "'a list \<Rightarrow> int \<Rightarrow> nat option" where
  "constraint_list_index xs i = (if 1 \<le> i \<and> i \<le> int (length xs) then Some (nat (i - 1)) else None)"

text \<open>
  \<^verbatim>\<open>deactivate_no_good_cuts_when_fixing_bound\<close>, lines 412 to 418. The cut list is the
  argument and is changed in place; \<^verbatim>\<open>self.integer_list[:-1]\<close> of an empty list is the
  empty list.
\<close>

definition deactivate_no_good_cuts_when_fixing_bound ::
  "mindtpy_config \<Rightarrow> constraint_data list \<Rightarrow> 'z mindtpy_solver_scheme
     \<Rightarrow> (py_error \<times> constraint_data list \<times> 'z mindtpy_solver_scheme)
        + (constraint_data list \<times> 'z mindtpy_solver_scheme)" where
  "deactivate_no_good_cuts_when_fixing_bound c no_good_cuts s =
     (case (if add_no_good_cuts c then
              (case constraint_list_index no_good_cuts (int (length no_good_cuts)) of
                 None \<Rightarrow> Inl KeyError
               | Some k \<Rightarrow> Inr (no_good_cuts[k := (no_good_cuts ! k)\<lparr>con_active := False\<rparr>]))
            else Inr no_good_cuts) of
        Inl e \<Rightarrow> Inl (e, no_good_cuts, s)
      | Inr cuts' \<Rightarrow>
          Inr (cuts', if use_tabu_list c then s\<lparr>integer_list := butlast (integer_list s)\<rparr> else s))"

section \<open>The solve method\<close>

text \<open>
  \<^verbatim>\<open>solve\<close>, lines 57 to 151, in two parts. The options are the configuration block
  built from the keyword arguments (its parsing is outside the file). The first part,
  lines 70 to 124, is \<^verbatim>\<open>check_config\<close> and then the preparation of the working model
  (lines 77 to 124), which ends with the reset of the incumbent; a model that is not
  valid makes \<^verbatim>\<open>solve\<close> return \<^verbatim>\<open>None\<close> there (\<open>Inr (False, ...)\<close>). Every result
  carries the configuration after \<^verbatim>\<open>check_config\<close>, the solver object and the call log.
\<close>

definition prepare_model ::
  "'z collaborators \<Rightarrow> mindtpy_config \<Rightarrow> pyomo_model \<Rightarrow> 'z mindtpy_solver_scheme
     \<Rightarrow> (py_error \<times> mindtpy_config \<times> 'z run) + (bool \<times> mindtpy_config \<times> 'z run)" where
  "prepare_model env c model s1 =
     (let st1 = call Set_up_solve_data (set_up_solve_data env model c) (s1, []);
          st2 = (if integer_to_binary c
                 then call Integer_to_binary
                        (\<lambda>s. s\<lparr>working_model := integer_to_binary_transformation env (working_model s)\<rparr>) st1
                 else st1);
          st3 = call Create_utility_block
                  (\<lambda>s. s\<lparr>working_model := create_utility_block env (working_model s)\<rparr>) st2;
          valid = call_ret Model_is_valid (model_is_valid env c) st3
      in if \<not> fst valid then Inr (False, c, snd valid)
         else
           (let st4 = call Setup_results_object (setup_results_object env c) (snd valid);
                st5 = call Process_objective
                        (\<lambda>s. process_objective env c (move_objective c) (use_mcpp c)
                               (add_regularization c = None) (partition_obj_nonlinear_terms c)
                               (mip_objective_polynomial_degree s)
                               (mip_constraint_polynomial_degree s) s) st4
            in case use_original_objective c (mip_objective_polynomial_degree (fst st5))
                      (working_model (fst st5)) of
                 Inl (e, m) \<Rightarrow> Inl (e, c, assign (\<lambda>s. s\<lparr>working_model := m\<rparr>) st5)
               | Inr m \<Rightarrow>
                   (let st6 = assign (\<lambda>s. s\<lparr>working_model := m\<rparr>) st5;
                        st7 = assign (\<lambda>s. s\<lparr>initial_var_values := variable_values (working_model s)\<rparr>) st6
                    in Inr (True, c,
                            assign (\<lambda>s. s\<lparr>best_solution_found := None,
                                          best_solution_found_time := None\<rparr>) st7))))"

definition solve_setup ::
  "'z collaborators \<Rightarrow> mindtpy_config \<Rightarrow> pyomo_model \<Rightarrow> 'z mindtpy_solver_scheme
     \<Rightarrow> (py_error \<times> mindtpy_config \<times> 'z run) + (bool \<times> mindtpy_config \<times> 'z run)" where
  "solve_setup env options model s =
     (case check_config env options s of
        Inl (e, c, s1) \<Rightarrow> Inl (e, c, (s1, []))
      | Inr (c, s1) \<Rightarrow> prepare_model env c model s1)"

text \<open>Lines 125 to 151: the split, the initialization, the loop and the results.\<close>

definition solve_run ::
  "nat \<Rightarrow> 'z collaborators \<Rightarrow> mindtpy_config \<Rightarrow> 'z run
     \<Rightarrow> ((py_error \<times> mindtpy_config \<times> 'z run) + (solver_results option \<times> mindtpy_config \<times> 'z run)) option" where
  "solve_run fuel env c st =
     (case initialize_mip_problem env c st of
        Inl (e, st') \<Rightarrow> Some (Inl (e, c, st'))
      | Inr st9 \<Rightarrow>
          (case MindtPy_iteration_loop fuel env c
                  (call Call_MindtPy_initialization (MindtPy_initialization env c) st9) of
             None \<Rightarrow> None
           | Some (Inl (e, st')) \<Rightarrow> Some (Inl (e, c, st'))
           | Some (Inr st10) \<Rightarrow>
               (let st11 = (if best_solution_found (fst st10) \<noteq> None
                            then call Load_solution (load_solution env) st10
                            else st10);
                    st12 = call Get_integral_info (get_integral_info env) st11;
                    st13 = call Update_result (update_result env) st12;
                    st14 = (if single_tree c
                            then assign (\<lambda>s. s\<lparr>results := (results s)
                                   \<lparr>num_nodes := Some (nlp_iter s -
                                      (if init_strategy c = ''rNLP'' then 1 else 0))\<rparr>\<rparr>) st13
                            else st13)
                in Some (Inr (Some (results (fst st14)), c, st14)))))"

definition solve ::
  "nat \<Rightarrow> 'z collaborators \<Rightarrow> mindtpy_config \<Rightarrow> pyomo_model \<Rightarrow> 'z mindtpy_solver_scheme
     \<Rightarrow> ((py_error \<times> mindtpy_config \<times> 'z run) + (solver_results option \<times> mindtpy_config \<times> 'z run)) option" where
  "solve fuel env options model s =
     (case solve_setup env options model s of
        Inl err \<Rightarrow> Some (Inl err)
      | Inr (False, c, st) \<Rightarrow> Some (Inr (None, c, st))
      | Inr (True, c, st) \<Rightarrow> solve_run fuel env c st)"

section \<open>Termination check of the spec\<close>




section \<open>Observations on models, logs and runs\<close>

text \<open>
  The activation flags of the epigraph reformulation, where the utility block holds
  valid references to distinct objectives: the original objective
  \<^verbatim>\<open>objective_list[0]\<close>, the epigraph constraint \<^verbatim>\<open>objective_constr\<close> and the epigraph
  objective \<^verbatim>\<open>objective\<close>. The epigraph form is \<open>(False, True, True)\<close>; it is undone
  in \<open>(True, False, False)\<close>.
\<close>

definition epigraph_flags :: "pyomo_model \<Rightarrow> (bool \<times> bool \<times> bool) option" where
  "epigraph_flags m =
     (case objective_list (MindtPy_utils m) of
        [] \<Rightarrow> None
      | i # _ \<Rightarrow>
          (case objective_constr (MindtPy_utils m) of
             None \<Rightarrow> None
           | Some k \<Rightarrow>
               (case objective (MindtPy_utils m) of
                  None \<Rightarrow> None
                | Some j \<Rightarrow>
                    if i < length (objectives m) \<and> j < length (objectives m)
                       \<and> k < length (constraints m) \<and> i \<noteq> j
                    then Some (obj_active (objectives m ! i), con_active (constraints m ! k),
                               obj_active (objectives m ! j))
                    else None)))"

definition original_degree :: "pyomo_model \<Rightarrow> nat option" where
  "original_degree m =
     (case objective_list (MindtPy_utils m) of [] \<Rightarrow> None | i # _ \<Rightarrow> poly_degree (objectives m ! i))"

text \<open>The number of constraints of a model, the members of its cut lists included.\<close>

definition constraint_count :: "pyomo_model \<Rightarrow> nat" where
  "constraint_count m =
     length (constraints m)
     + (case oa_cuts (cuts (MindtPy_utils m)) of None \<Rightarrow> 0 | Some xs \<Rightarrow> length xs)
     + (case fp_orthogonality_cuts (cuts (MindtPy_utils m)) of None \<Rightarrow> 0 | Some xs \<Rightarrow> length xs)"

text \<open>
  The model \<^verbatim>\<open>initialize_mip_problem\<close> clones, and the relaxation it makes of the
  clone once the first active objective is found at position \<open>i\<close>.
\<close>

definition split_source :: "'z collaborators \<Rightarrow> mindtpy_config \<Rightarrow> pyomo_model \<Rightarrow> pyomo_model" where
  "split_source env c w = (if single_tree c then add_var_bound env w c else w)"

definition relaxation :: "mindtpy_config \<Rightarrow> nat \<Rightarrow> pyomo_model \<Rightarrow> pyomo_model" where
  "relaxation c i w =
     (let m1 = set_obj_active i False w;
          m2 = (if calculate_dual_at_solution c then m1\<lparr>dual := Some False\<rparr> else m1);
          m3 = new_oa_cuts m2
      in if init_strategy c = ''FP'' then new_fp_orthogonality_cuts m3 else m3)"

text \<open>
  The guard of the regularized main solve (lines 196 and 198), and the events the body
  of the loop may log: a regularized main solve only under its guard, and no call that
  belongs to \<^verbatim>\<open>solve\<close> or to the bound correction.
\<close>

definition regularization_guard :: "mindtpy_config \<Rightarrow> 'z mindtpy_solver_scheme \<Rightarrow> bool" where
  "regularization_guard c s =
     (add_regularization c \<noteq> None \<and> best_solution_found s \<noteq> None \<and> \<not> single_tree c
      \<and> (case dual_bound_progress s of [] \<Rightarrow> False | b0 # _ \<Rightarrow> dual_bound s \<noteq> b0))"

fun body_event :: "mindtpy_config \<Rightarrow> event \<times> 'z mindtpy_solver_scheme \<Rightarrow> bool" where
  "body_event c (Solve_main reg, s) = (reg \<longrightarrow> regularization_guard c s)"
| "body_event c (Handle_main_optimal, s) = True"
| "body_event c (Handle_main_infeasible, s) = True"
| "body_event c (Handle_main_other_conditions, s) = True"
| "body_event c (Call_after_main_solve, s) = True"
| "body_event c (Handle_regularization_main_tc, s) = True"
| "body_event c (Copy_var_list_values, s) = True"
| "body_event c (Solve_subproblem n, s) = True"
| "body_event c (Handle_nlp_subproblem_tc, s) = True"
| "body_event c (Call_after_subproblem_solve, s) = True"
| "body_event c (Algorithm_should_terminate b, s) = True"
| "body_event c (Copy_from_solution_pool n, s) = True"
| "body_event c (Skip_explored n, s) = True"
| "body_event c (ev, s) = False"

text \<open>The first main solve of a log: regularized or not, \<open>None\<close> when there is none.\<close>

fun first_main_solve :: "'z trace \<Rightarrow> bool option" where
  "first_main_solve [] = None"
| "first_main_solve ((Solve_main reg, s) # es) = Some reg"
| "first_main_solve (e # es) = first_main_solve es"

definition log_of :: "(py_error \<times> 'z run) + 'z run \<Rightarrow> 'z trace" where
  "log_of r = (case r of Inl err \<Rightarrow> snd (snd err) | Inr st \<Rightarrow> snd st)"

definition loop_log :: "(py_error \<times> 'z run) + (bool \<times> 'z run) \<Rightarrow> 'z trace" where
  "loop_log r = (case r of Inl err \<Rightarrow> snd (snd err) | Inr out \<Rightarrow> snd (snd out))"

definition emits :: "(event \<times> 'z mindtpy_solver_scheme \<Rightarrow> bool) \<Rightarrow> 'z trace \<Rightarrow> 'z trace \<Rightarrow> bool" where
  "emits P tr tr' = (\<exists>new. tr' = tr @ new \<and> (\<forall>e \<in> set new. P e))"






text \<open>
  What a caller of \<^verbatim>\<open>solve\<close> sees: the exception raised or the value returned. And
  what it means for a collaborator to be blind to the incumbent of the solver object it
  is given: its result is the same, the incumbent fields aside, whatever they hold.
\<close>

definition outcome ::
  "((py_error \<times> mindtpy_config \<times> 'z run) + (solver_results option \<times> mindtpy_config \<times> 'z run)) option
     \<Rightarrow> (py_error + solver_results option) option" where
  "outcome r = map_option (map_sum fst fst) r"

definition reset_incumbent :: "'z mindtpy_solver_scheme \<Rightarrow> 'z mindtpy_solver_scheme" where
  "reset_incumbent s = s\<lparr>best_solution_found := None, best_solution_found_time := None\<rparr>"

definition same_but_incumbent :: "'z mindtpy_solver_scheme \<Rightarrow> 'z mindtpy_solver_scheme \<Rightarrow> bool" where
  "same_but_incumbent u v = (reset_incumbent u = reset_incumbent v)"

definition incumbent_blind :: "('z mindtpy_solver_scheme \<Rightarrow> 'z mindtpy_solver_scheme) \<Rightarrow> bool" where
  "incumbent_blind f =
     (\<forall>s x t. reset_incumbent (f (s\<lparr>best_solution_found := x, best_solution_found_time := t\<rparr>))
              = reset_incumbent (f s))"

definition setup_incumbent_blind :: "'z collaborators \<Rightarrow> pyomo_model \<Rightarrow> bool" where
  "setup_incumbent_blind env model =
     ((\<forall>c s x t.
         fst (base_check_config env (c, s\<lparr>best_solution_found := x, best_solution_found_time := t\<rparr>))
           = fst (base_check_config env (c, s))
         \<and> reset_incumbent (snd (base_check_config env
               (c, s\<lparr>best_solution_found := x, best_solution_found_time := t\<rparr>)))
           = reset_incumbent (snd (base_check_config env (c, s))))
      \<and> (\<forall>c. incumbent_blind (set_up_solve_data env model c))
      \<and> (\<forall>c s x t.
           fst (model_is_valid env c (s\<lparr>best_solution_found := x, best_solution_found_time := t\<rparr>))
             = fst (model_is_valid env c s)
           \<and> reset_incumbent (snd (model_is_valid env c
                 (s\<lparr>best_solution_found := x, best_solution_found_time := t\<rparr>)))
             = reset_incumbent (snd (model_is_valid env c s)))
      \<and> (\<forall>c. incumbent_blind (setup_results_object env c))
      \<and> (\<forall>c a b d e f g. incumbent_blind (process_objective env c a b d e f g)))"

section \<open>A worked instance\<close>

text \<open>
  Concrete values on which the theorems below are run. The model is the example of the
  spec, minimize \<open>x1 + x2 + (y - 1)\<^sup>2\<close> subject to \<open>y \<ge> x1 + x2\<close>, after its epigraph
  reformulation: the original objective (degree 2) is inactive, the epigraph constraint
  and the epigraph objective are active. The collaborators of the instance do the least
  that keeps a run going: a main solve counts one iteration and reports an optimal
  result with a pool of two solutions, the termination check never fires, copying
  variable values takes them from the source.
\<close>

definition example_config :: mindtpy_config where
  "example_config =
     \<lparr>add_regularization = None, calculate_dual_at_solution = False,
      regularization_mip_threads = 0, threads = 0, single_tree = False,
      add_cuts_at_incumbent = False, reduce_level_coef = False, use_bb_tree_incumbent = False,
      mip_regularization_solver = None, mip_solver = ''glpk'', iteration_limit = 1,
      add_slack = False, heuristic_nonconvex = False, equality_relaxation = False,
      init_strategy = ''rNLP'', move_objective = False, integer_to_binary = False,
      use_mcpp = False, partition_obj_nonlinear_terms = False, add_no_good_cuts = False,
      use_tabu_list = False, solution_pool = False, num_solution_iteration = 5,
      fp_projcuts = True, bound_tolerance = 1 / 10000\<rparr>"

definition example_model :: pyomo_model where
  "example_model =
     \<lparr>objectives = [\<lparr>obj_active = False, obj_sense = minimize, poly_degree = Some 2\<rparr>,
                    \<lparr>obj_active = True, obj_sense = minimize, poly_degree = Some 1\<rparr>],
      constraints = [\<lparr>con_active = True, con_body = 0\<rparr>, \<lparr>con_active = True, con_body = 1\<rparr>],
      dual = Some True,
      variable_values = [Some 0, Some 0, Some 1],
      MindtPy_utils =
        \<lparr>objective_list = [0], objective_constr = Some 1, objective = Some 1,
         cuts = \<lparr>oa_cuts = None, fp_orthogonality_cuts = None\<rparr>\<rparr>\<rparr>"

definition example_solver :: mindtpy_solver where
  "example_solver =
     \<lparr>regularization_mip_type = None, working_model = example_model, mip = example_model,
      jacobians = 0, results = \<lparr>num_nodes = None, results_info = 0\<rparr>,
      mip_objective_polynomial_degree = {0, 1}, mip_constraint_polynomial_degree = {0, 1},
      initial_var_values = [], best_solution_found = None, best_solution_found_time = None,
      nlp_iter = 0, mip_iter = 0, mip_subiter = 0,
      primal_bound = Pos_inf, dual_bound = Neg_inf, dual_bound_progress = [Neg_inf],
      curr_int_sol = [], integer_list = [], should_terminate = False,
      objective_sense = minimize, termination_reason = RUNNING\<rparr>"

definition example_results :: mip_results where
  "example_results =
     \<lparr>termination_condition = tc_optimal,
      cplex_pool = [(''alt'', 5), (''incumbent'', 3)],
      gurobi_pool = [5, 3]\<rparr>"

definition example_collaborators :: "unit collaborators" where
  "example_collaborators =
     \<lparr>base_check_config = (\<lambda>p. p),
      set_up_solve_data = (\<lambda>model c s. s\<lparr>working_model := model, mip_iter := 0, nlp_iter := 0\<rparr>),
      integer_to_binary_transformation = (\<lambda>m. m),
      create_utility_block = (\<lambda>m. m),
      model_is_valid = (\<lambda>c s. (True, s)),
      setup_results_object = (\<lambda>c s. s),
      process_objective = (\<lambda>c a b d e f g s. s),
      add_var_bound = (\<lambda>m c. m),
      calc_jacobians = (\<lambda>m c. length (constraints m)),
      MindtPy_initialization = (\<lambda>c s. s),
      solve_main = (\<lambda>c reg s. ((mip s, Some example_results), s\<lparr>mip_iter := mip_iter s + 1\<rparr>)),
      handle_main_optimal = (\<lambda>m c s. s),
      handle_main_infeasible = (\<lambda>m c s. s),
      handle_main_other_conditions = (\<lambda>m r c s. s),
      call_after_main_solve = (\<lambda>m s. s),
      handle_regularization_main_tc = (\<lambda>m r c s. s),
      get_integer_solution =
        (\<lambda>m string_zero. map (\<lambda>v. case v of None \<Rightarrow> 0 | Some x \<Rightarrow> \<lfloor>x\<rfloor>) (variable_values m)),
      copy_var_list_values = (\<lambda>src dst c. dst\<lparr>variable_values := variable_values src\<rparr>),
      solve_subproblem = (\<lambda>c s. ((working_model s, 0), s\<lparr>nlp_iter := nlp_iter s + 1\<rparr>)),
      handle_nlp_subproblem_tc = (\<lambda>m r c s. s),
      call_after_subproblem_solve = (\<lambda>m s. s),
      algorithm_should_terminate = (\<lambda>c check_cycling s. (False, s)),
      copy_var_list_values_from_solution_pool =
        (\<lambda>src dst c r n. dst\<lparr>variable_values :=
           (if n = Cplex_name ''alt'' \<or> n = Gurobi_index 0 then [Some 1, Some 0, Some 1]
            else [Some 0, Some 0, Some 1])\<rparr>),
      fix_dual_bound = (\<lambda>c last_iter_cuts s. s),
      load_solution = (\<lambda>s. s),
      get_integral_info = (\<lambda>s. s),
      update_result = (\<lambda>s. s)\<rparr>"


section \<open>Verification\<close>

subsection \<open>Configuration checking\<close>

lemma check_regularization_keeps:
  "single_tree (check_regularization c) = single_tree c"
  "mip_solver (check_regularization c) = mip_solver c"
  "heuristic_nonconvex (check_regularization c) = heuristic_nonconvex c"
  "solution_pool (check_regularization c) = solution_pool c"
  "iteration_limit (check_regularization c) = iteration_limit c"
  "add_slack (check_regularization c) = add_slack c"
  by (simp_all add: check_regularization_def Let_def)

lemma check_single_tree_ok:
  assumes "single_tree c" "mip_solver c \<in> {''cplex_persistent'', ''gurobi_persistent''}"
  shows "\<exists>c'. check_single_tree c = Inr c' \<and> iteration_limit c' = 1 \<and> \<not> add_slack c'
     \<and> single_tree c' \<and> solution_pool c' = solution_pool c \<and> heuristic_nonconvex c' = heuristic_nonconvex c"
  using assms by (auto simp add: check_single_tree_def Let_def)

lemma check_single_tree_error:
  assumes "single_tree c" "mip_solver c \<notin> {''cplex_persistent'', ''gurobi_persistent''}"
  shows "check_single_tree c = Inl (ValueError, c\<lparr>iteration_limit := 1, add_slack := False\<rparr>)"
  using assms by (simp add: check_single_tree_def Let_def)

lemma check_relaxation_keeps:
  "single_tree (check_relaxation c) = single_tree c"
  "solution_pool (check_relaxation c) = solution_pool c"
  "iteration_limit (check_relaxation c) = iteration_limit c"
  "add_slack (check_relaxation c) = (heuristic_nonconvex c \<or> add_slack c)"
  by (simp_all add: check_relaxation_def Let_def)

text \<open>
  Claim C6, as amended. With \<^verbatim>\<open>single_tree\<close> and one of the two persistent solvers,
  \<^verbatim>\<open>check_config\<close> hands to the base class a configuration with
  \<^verbatim>\<open>iteration_limit = 1\<close>, with \<^verbatim>\<open>add_slack\<close> false unless
  \<^verbatim>\<open>heuristic_nonconvex\<close> is set (then it is true), and with \<^verbatim>\<open>solution_pool\<close> as it
  was given; it is the loop that leaves the subproblem block, the solution pool
  included, out in single-tree mode.
\<close>

theorem check_config_single_tree:
  assumes "single_tree c" and "mip_solver c \<in> {''cplex_persistent'', ''gurobi_persistent''}"
  shows "\<exists>c' s'. check_config env c s = Inr (base_check_config env (c', s'))
           \<and> single_tree c' \<and> iteration_limit c' = 1
           \<and> add_slack c' = heuristic_nonconvex c
           \<and> solution_pool c' = solution_pool c
           \<and> (\<forall>res lic st. subproblem_block env c' res lic st = Inr (Proceed, lic, st))"
proof -
  from check_single_tree_ok [of "check_regularization c"] assms
  obtain c1 where c1: "check_single_tree (check_regularization c) = Inr c1"
    "iteration_limit c1 = 1" "\<not> add_slack c1" "single_tree c1"
    "solution_pool c1 = solution_pool c" "heuristic_nonconvex c1 = heuristic_nonconvex c"
    by (auto simp: check_regularization_keeps)
  let ?c2 = "check_relaxation c1"
  have "single_tree ?c2" "iteration_limit ?c2 = 1" "add_slack ?c2 = heuristic_nonconvex c"
    "solution_pool ?c2 = solution_pool c"
    using c1 by (simp_all add: check_relaxation_keeps)
  moreover have "\<forall>res lic st. subproblem_block env ?c2 res lic st = Inr (Proceed, lic, st)"
    using \<open>single_tree ?c2\<close> by (simp add: subproblem_block_def)
  moreover have "check_config env c s = Inr (base_check_config env
      (?c2, s\<lparr>regularization_mip_type := regularization_type ?c2 (regularization_mip_type s)\<rparr>))"
    by (simp add: check_config_def c1 Let_def)
  ultimately show ?thesis by blast
qed

lemma check_config_value_error:
  assumes "single_tree c" and "mip_solver c \<notin> {''cplex_persistent'', ''gurobi_persistent''}"
  shows "check_config env c s = Inl (ValueError, (check_regularization c)\<lparr>iteration_limit := 1, add_slack := False\<rparr>, s)"
  using check_single_tree_error [of "check_regularization c"] assms
  by (simp add: check_config_def check_regularization_keeps)

lemma check_config_error_iff:
  "(\<exists>e c' s'. check_config env c s = Inl (e, c', s')) \<longleftrightarrow>
     single_tree c \<and> mip_solver c \<notin> {''cplex_persistent'', ''gurobi_persistent''}"
  by (auto simp add: check_config_def check_single_tree_def check_regularization_keeps Let_def split: sum.splits if_splits)

subsection \<open>The eviction step\<close>

text \<open>
  Claim C5, as amended. On a no-good cut list that is not empty when
  \<^verbatim>\<open>add_no_good_cuts\<close> is set, the eviction step returns; the cut list keeps its length
  and every cut but the last one, whose only change is its deactivation; without
  \<^verbatim>\<open>add_no_good_cuts\<close> the list is untouched. With \<^verbatim>\<open>use_tabu_list\<close> the solver object
  changes only in \<^verbatim>\<open>integer_list\<close>, which loses its last element; without it the
  solver object is untouched.
\<close>

theorem eviction_frame:
  assumes "add_no_good_cuts c \<longrightarrow> no_good_cuts \<noteq> []"
  shows "\<exists>cuts' s'. deactivate_no_good_cuts_when_fixing_bound c no_good_cuts s = Inr (cuts', s')
     \<and> length cuts' = length no_good_cuts
     \<and> butlast cuts' = butlast no_good_cuts
     \<and> (if add_no_good_cuts c
        then cuts' = butlast no_good_cuts @ [(last no_good_cuts)\<lparr>con_active := False\<rparr>]
        else cuts' = no_good_cuts)
     \<and> (if use_tabu_list c
        then s' = s\<lparr>integer_list := butlast (integer_list s)\<rparr>
        else s' = s)"
proof (cases "add_no_good_cuts c")
  case False
  then show ?thesis by (simp add: deactivate_no_good_cuts_when_fixing_bound_def)
next
  case True
  with assms have ne: "no_good_cuts \<noteq> []" by simp
  then have idx: "constraint_list_index no_good_cuts (int (length no_good_cuts))
      = Some (length no_good_cuts - 1)"
    by (cases no_good_cuts) (simp_all add: constraint_list_index_def)
  have upd: "no_good_cuts[length no_good_cuts - Suc 0 := x] = butlast no_good_cuts @ [x]" for x
    using ne by (induction no_good_cuts rule: rev_induct) simp_all
  have lst: "no_good_cuts ! (length no_good_cuts - Suc 0) = last no_good_cuts"
    using ne by (simp add: last_conv_nth)
  show ?thesis using True ne
    by (simp add: deactivate_no_good_cuts_when_fixing_bound_def idx upd lst)
qed

lemma eviction_empty:
  "add_no_good_cuts c \<Longrightarrow> deactivate_no_good_cuts_when_fixing_bound c [] s = Inl (KeyError, [], s)"
  by (simp add: deactivate_no_good_cuts_when_fixing_bound_def constraint_list_index_def)


subsection \<open>The epigraph reformulation\<close>

lemma set_active_simps [simp]:
  "objectives (set_obj_active i b m) = (objectives m)[i := (objectives m ! i)\<lparr>obj_active := b\<rparr>]"
  "constraints (set_obj_active i b m) = constraints m"
  "MindtPy_utils (set_obj_active i b m) = MindtPy_utils m"
  "dual (set_obj_active i b m) = dual m"
  "objectives (set_con_active k b m) = objectives m"
  "constraints (set_con_active k b m) = (constraints m)[k := (constraints m ! k)\<lparr>con_active := b\<rparr>]"
  "MindtPy_utils (set_con_active k b m) = MindtPy_utils m"
  "dual (set_con_active k b m) = dual m"
  by (simp_all add: set_obj_active_def set_con_active_def)

lemma epigraph_flags_SomeD:
  assumes "epigraph_flags m = Some (a, b, d)"
  obtains i rest k j where "objective_list (MindtPy_utils m) = i # rest"
    "objective_constr (MindtPy_utils m) = Some k" "objective (MindtPy_utils m) = Some j"
    "i < length (objectives m)" "j < length (objectives m)" "k < length (constraints m)" "i \<noteq> j"
    "obj_active (objectives m ! i) = a" "con_active (constraints m ! k) = b"
    "obj_active (objectives m ! j) = d"
  using assms
  by (auto simp add: epigraph_flags_def split: list.splits option.splits if_splits)

text \<open>
  Claim C3. On a model in epigraph form, lines 110 to 115 undo the reformulation
  (original objective active, epigraph constraint and epigraph objective inactive)
  exactly when the degree of the original objective is in the handleable set and
  \<^verbatim>\<open>add_regularization\<close> is not \<^verbatim>\<open>None\<close>; otherwise the model is left as it is.
\<close>

theorem epigraph_undone_iff:
  assumes "epigraph_flags m = Some (False, True, True)"
  shows "\<exists>m'. use_original_objective c handleable m = Inr m'
           \<and> (epigraph_flags m' = Some (True, False, False)
                \<longleftrightarrow> original_degree m \<in> Some ` handleable \<and> add_regularization c \<noteq> None)
           \<and> (\<not> (original_degree m \<in> Some ` handleable \<and> add_regularization c \<noteq> None) \<longrightarrow> m' = m)"
proof -
  from assms obtain i rest k j where refs: "objective_list (MindtPy_utils m) = i # rest"
    "objective_constr (MindtPy_utils m) = Some k" "objective (MindtPy_utils m) = Some j"
    "i < length (objectives m)" "j < length (objectives m)" "k < length (constraints m)" "i \<noteq> j"
    by (rule epigraph_flags_SomeD)
  have deg: "original_degree m = poly_degree (objectives m ! i)"
    by (simp add: original_degree_def refs)
  show ?thesis
  proof (cases "poly_degree (objectives m ! i) \<in> Some ` handleable \<and> add_regularization c \<noteq> None")
    case True
    let ?m' = "set_obj_active j False (set_con_active k False (set_obj_active i True m))"
    have "use_original_objective c handleable m = Inr ?m'"
      using True by (simp add: use_original_objective_def refs Let_def)
    moreover have "epigraph_flags ?m' = Some (True, False, False)"
      using refs by (simp add: epigraph_flags_def)
    ultimately show ?thesis using True deg by simp
  next
    case False
    then have "use_original_objective c handleable m = Inr m"
      by (auto simp add: use_original_objective_def refs)
    then show ?thesis using False deg assms by simp
  qed
qed


subsection \<open>Splitting twice\<close>

lemma first_active_Some:
  "first_active xs = Some i \<Longrightarrow> i < length xs \<and> obj_active (xs ! i)"
proof (induction xs arbitrary: i)
  case Nil
  then show ?case by simp
next
  case (Cons x xs)
  then show ?case by (cases i) (auto split: if_splits)
qed

lemma new_cuts_simps [simp]:
  "objectives (new_oa_cuts m) = objectives m"
  "constraints (new_oa_cuts m) = constraints m"
  "dual (new_oa_cuts m) = dual m"
  "oa_cuts (cuts (MindtPy_utils (new_oa_cuts m))) = Some []"
  "fp_orthogonality_cuts (cuts (MindtPy_utils (new_oa_cuts m))) = fp_orthogonality_cuts (cuts (MindtPy_utils m))"
  "objectives (new_fp_orthogonality_cuts m) = objectives m"
  "constraints (new_fp_orthogonality_cuts m) = constraints m"
  "dual (new_fp_orthogonality_cuts m) = dual m"
  "oa_cuts (cuts (MindtPy_utils (new_fp_orthogonality_cuts m))) = oa_cuts (cuts (MindtPy_utils m))"
  "fp_orthogonality_cuts (cuts (MindtPy_utils (new_fp_orthogonality_cuts m))) = Some []"
  by (simp_all add: new_oa_cuts_def new_fp_orthogonality_cuts_def)

lemma relaxation_objectives:
  "objectives (relaxation c i w) = (objectives w)[i := (objectives w ! i)\<lparr>obj_active := False\<rparr>]"
  by (simp add: relaxation_def Let_def)

lemma relaxation_constraints: "constraints (relaxation c i w) = constraints w"
  by (simp add: relaxation_def Let_def)

lemma relaxation_dual:
  "dual (relaxation c i w) = (if calculate_dual_at_solution c then Some False else dual w)"
  by (simp add: relaxation_def Let_def)

lemma relaxation_cuts:
  "oa_cuts (cuts (MindtPy_utils (relaxation c i w))) = Some []"
  "fp_orthogonality_cuts (cuts (MindtPy_utils (relaxation c i w))) =
     (if init_strategy c = ''FP'' then Some [] else fp_orthogonality_cuts (cuts (MindtPy_utils w)))"
  by (simp_all add: relaxation_def Let_def)

lemma initialize_mip_problem_InrD:
  assumes "initialize_mip_problem env c st = Inr st1"
  shows "\<exists>i. first_active (objectives (split_source env c (working_model (fst st)))) = Some i
        \<and> (calculate_dual_at_solution c \<longrightarrow> dual (split_source env c (working_model (fst st))) \<noteq> None)
        \<and> oa_cuts (cuts (MindtPy_utils (split_source env c (working_model (fst st))))) = None
        \<and> (init_strategy c = ''FP'' \<longrightarrow>
             fp_orthogonality_cuts (cuts (MindtPy_utils (split_source env c (working_model (fst st))))) = None)
        \<and> mip (fst st1) = relaxation c i (split_source env c (working_model (fst st)))
        \<and> working_model (fst st1) =
            (if init_strategy c = ''FP'' \<and> fp_projcuts c
             then new_fp_orthogonality_cuts (split_source env c (working_model (fst st)))
             else split_source env c (working_model (fst st)))"
  using assms unfolding initialize_mip_problem_def split_source_def relaxation_def
    declare_oa_cuts_def declare_fp_orthogonality_cuts_def
  by (cases "single_tree c"; cases "calculate_dual_at_solution c";
      cases "init_strategy c = ''FP''"; cases "fp_projcuts c")
     (auto simp add: Let_def call_def assign_def split: option.splits if_splits)

lemma initialize_mip_problem_InrI:
  assumes "first_active (objectives (split_source env c (working_model (fst st)))) = Some i"
    and "calculate_dual_at_solution c \<longrightarrow> dual (split_source env c (working_model (fst st))) \<noteq> None"
    and "oa_cuts (cuts (MindtPy_utils (split_source env c (working_model (fst st))))) = None"
    and "init_strategy c = ''FP'' \<longrightarrow>
             fp_orthogonality_cuts (cuts (MindtPy_utils (split_source env c (working_model (fst st))))) = None"
  shows "\<exists>st1. initialize_mip_problem env c st = Inr st1
           \<and> mip (fst st1) = relaxation c i (split_source env c (working_model (fst st)))"
  using assms unfolding initialize_mip_problem_def split_source_def relaxation_def
    declare_oa_cuts_def declare_fp_orthogonality_cuts_def
  by (cases "single_tree c"; cases "calculate_dual_at_solution c";
      cases "init_strategy c = ''FP''"; cases "fp_projcuts c")
     (auto simp add: Let_def call_def assign_def split: option.splits if_splits)

lemma initialize_mip_problem_redeclared:
  assumes "first_active (objectives (split_source env c (working_model (fst st)))) = Some i"
    and "calculate_dual_at_solution c \<longrightarrow> dual (split_source env c (working_model (fst st))) \<noteq> None"
    and "oa_cuts (cuts (MindtPy_utils (split_source env c (working_model (fst st))))) = None"
    and "init_strategy c = ''FP''"
    and "fp_orthogonality_cuts (cuts (MindtPy_utils (split_source env c (working_model (fst st))))) = Some old"
  shows "\<exists>st'. initialize_mip_problem env c st = Inl (RuntimeError, st')"
  using assms unfolding initialize_mip_problem_def split_source_def
    declare_oa_cuts_def declare_fp_orthogonality_cuts_def
  by (cases "single_tree c"; cases "calculate_dual_at_solution c")
     (auto simp add: Let_def call_def assign_def split: option.splits if_splits)

text \<open>
  Claim C9, as amended. A call of \<^verbatim>\<open>initialize_mip_problem\<close> that returns has made a
  relaxation: a clone of the working model in which the first active objective is
  deactivated, with the constraints of the working model and an empty list of
  outer-approximation cuts. A second call on the state it left returns too, with a
  relaxation of the same objectives, constraints, constraint count, objective senses
  and activation flags, unless \<^verbatim>\<open>init_strategy\<close> is \<^verbatim>\<open>FP\<close> with \<^verbatim>\<open>fp_projcuts\<close>: then
  the first call has declared the orthogonality cuts on the working model itself
  (line 390) and the second call raises \<^verbatim>\<open>RuntimeError\<close> when it declares them on
  the clone. In single-tree mode \<^verbatim>\<open>add_var_bound\<close> is taken to leave objectives,
  constraints, the dual suffix and the utility block of the working model alone.
\<close>

theorem split_twice:
  assumes first: "initialize_mip_problem env c st = Inr st1"
    and bounds: "single_tree c \<longrightarrow> (\<forall>m. objectives (add_var_bound env m c) = objectives m
          \<and> constraints (add_var_bound env m c) = constraints m
          \<and> dual (add_var_bound env m c) = dual m
          \<and> MindtPy_utils (add_var_bound env m c) = MindtPy_utils m)"
  shows "\<exists>i. first_active (objectives (split_source env c (working_model (fst st)))) = Some i
     \<and> objectives (mip (fst st1))
          = (objectives (split_source env c (working_model (fst st))))
              [i := (objectives (split_source env c (working_model (fst st))) ! i)\<lparr>obj_active := False\<rparr>]
     \<and> \<not> obj_active (objectives (mip (fst st1)) ! i)
     \<and> constraints (mip (fst st1)) = constraints (split_source env c (working_model (fst st)))
     \<and> oa_cuts (cuts (MindtPy_utils (mip (fst st1)))) = Some []
     \<and> (if init_strategy c = ''FP'' \<and> fp_projcuts c
         then \<exists>st'. initialize_mip_problem env c st1 = Inl (RuntimeError, st')
         else \<exists>st2. initialize_mip_problem env c st1 = Inr st2
                \<and> objectives (mip (fst st2)) = objectives (mip (fst st1))
                \<and> constraints (mip (fst st2)) = constraints (mip (fst st1))
                \<and> oa_cuts (cuts (MindtPy_utils (mip (fst st2)))) = Some []
                \<and> constraint_count (mip (fst st2)) = constraint_count (mip (fst st1))
                \<and> map obj_sense (objectives (mip (fst st2))) = map obj_sense (objectives (mip (fst st1)))
                \<and> map obj_active (objectives (mip (fst st2))) = map obj_active (objectives (mip (fst st1))))"
proof -
  let ?w0 = "split_source env c (working_model (fst st))"
  let ?w1 = "split_source env c (working_model (fst st1))"
  from initialize_mip_problem_InrD [OF first]
  obtain i where i: "first_active (objectives ?w0) = Some i"
    and du: "calculate_dual_at_solution c \<longrightarrow> dual ?w0 \<noteq> None"
    and oa: "oa_cuts (cuts (MindtPy_utils ?w0)) = None"
    and fp0: "init_strategy c = ''FP'' \<longrightarrow> fp_orthogonality_cuts (cuts (MindtPy_utils ?w0)) = None"
    and m1: "mip (fst st1) = relaxation c i ?w0"
    and w1: "working_model (fst st1) =
            (if init_strategy c = ''FP'' \<and> fp_projcuts c
             then new_fp_orthogonality_cuts ?w0 else ?w0)"
    by blast
  have same: "objectives (split_source env c m) = objectives m"
    "constraints (split_source env c m) = constraints m"
    "dual (split_source env c m) = dual m"
    "MindtPy_utils (split_source env c m) = MindtPy_utils m" for m
    using bounds by (simp_all add: split_source_def)
  have obj: "objectives ?w1 = objectives ?w0" and con: "constraints ?w1 = constraints ?w0"
    and dl: "dual ?w1 = dual ?w0" and oa1: "oa_cuts (cuts (MindtPy_utils ?w1)) = None"
    using oa by (simp_all add: same w1)
  from first_active_Some [OF i] have act: "i < length (objectives ?w0)" by simp
  have made: "objectives (mip (fst st1))
          = (objectives ?w0)[i := (objectives ?w0 ! i)\<lparr>obj_active := False\<rparr>]"
    "\<not> obj_active (objectives (mip (fst st1)) ! i)"
    "constraints (mip (fst st1)) = constraints ?w0"
    "oa_cuts (cuts (MindtPy_utils (mip (fst st1)))) = Some []"
    using act by (simp_all add: m1 relaxation_objectives relaxation_constraints relaxation_cuts)
  show ?thesis
  proof (cases "init_strategy c = ''FP'' \<and> fp_projcuts c")
    case True
    then have "fp_orthogonality_cuts (cuts (MindtPy_utils ?w1)) = Some []"
      by (simp add: same w1)
    from initialize_mip_problem_redeclared [of env c st1 i, OF _ _ oa1 _ this] i du obj dl True
    obtain st' where "initialize_mip_problem env c st1 = Inl (RuntimeError, st')"
      by auto
    with True i made show ?thesis by auto
  next
    case False
    then have w1': "working_model (fst st1) = ?w0" by (auto simp add: w1)
    have fp1: "fp_orthogonality_cuts (cuts (MindtPy_utils ?w1)) = fp_orthogonality_cuts (cuts (MindtPy_utils ?w0))"
      by (simp add: same w1')
    from initialize_mip_problem_InrI [of env c st1 i, OF _ _ oa1] i du obj dl fp0 fp1
    obtain st2 where st2: "initialize_mip_problem env c st1 = Inr st2"
      and m2: "mip (fst st2) = relaxation c i ?w1"
      by auto
    have "constraint_count (mip (fst st2)) = constraint_count (mip (fst st1))"
      using fp1 by (simp add: constraint_count_def m1 m2 relaxation_constraints relaxation_cuts con)
    moreover have "objectives (mip (fst st2)) = objectives (mip (fst st1))"
      by (simp add: m1 m2 relaxation_objectives obj)
    moreover have "constraints (mip (fst st2)) = constraints (mip (fst st1))"
      by (simp add: m1 m2 relaxation_constraints con)
    moreover have "oa_cuts (cuts (MindtPy_utils (mip (fst st2)))) = Some []"
      by (simp add: m2 relaxation_cuts)
    ultimately show ?thesis using False st2 i made by auto
  qed
qed

subsection \<open>The call log of the loop\<close>

lemma emits_refl [simp]: "emits P tr tr"
  by (simp add: emits_def)

lemma emits_trans: "emits P a b \<Longrightarrow> emits P b d \<Longrightarrow> emits P a d"
  by (auto simp add: emits_def)

lemma call_simps [simp]:
  "fst (call ev f st) = f (fst st)"
  "snd (call ev f st) = snd st @ [(ev, fst st)]"
  "fst (call_ret ev g st) = fst (g (fst st))"
  "fst (snd (call_ret ev g st)) = snd (g (fst st))"
  "snd (snd (call_ret ev g st)) = snd st @ [(ev, fst st)]"
  "fst (assign f st) = f (fst st)"
  "snd (assign f st) = snd st"
  by (simp_all add: call_def call_ret_def assign_def)

lemma emits_snoc: "emits P tr tr' \<Longrightarrow> P e \<Longrightarrow> emits P tr (tr' @ [e])"
  by (auto simp add: emits_def)

lemma emits_step: "P e \<Longrightarrow> emits P tr (tr @ [e])"
  by (simp add: emits_def)

lemma main_solve_block_emits:
  assumes "main_solve_block env c lic st = (fl, lic', mm, res, st')"
  shows "\<exists>more. snd st' = snd st @ (Solve_main False, (fst st)\<lparr>mip_subiter := 0\<rparr>) # more
           \<and> (\<forall>e \<in> set more. body_event c e)"
  using assms unfolding main_solve_block_def
  by (auto simp add: Let_def split: option.splits if_splits)

lemma regularization_block_emits:
  assumes "regularization_block env c mm res st = Inr (mm', res', st')"
  shows "emits (body_event c) (snd st) (snd st')"
  using assms unfolding regularization_block_def
  by (auto simp add: Let_def emits_def regularization_guard_def split: list.splits if_splits)

lemma regularization_block_error:
  assumes "regularization_block env c mm res st = Inl err"
  shows "err = (IndexError, st)"
  using assms unfolding regularization_block_def
  by (auto simp add: Let_def split: list.splits if_splits)

lemma single_tree_regularization_block_emits:
  "emits (body_event c) (snd st) (snd (single_tree_regularization_block env c mm st))"
  unfolding single_tree_regularization_block_def
  by (auto simp add: Let_def emits_def)

lemma solve_and_check_emits:
  "emits (body_event c) (snd st) (snd (snd (solve_and_check env c n st)))"
  unfolding solve_and_check_def
  by (auto simp add: Let_def emits_def)

lemma explore_solution_pool_emits:
  "emits (body_event c) (snd st) (snd (snd (explore_solution_pool env c r xs k lic st)))"
proof (induction xs arbitrary: k st)
  case Nil
  then show ?case by simp
next
  case (Cons e rest)
  define st1 where "st1 =
     (if k \<ge> 1 then
        assign (\<lambda>s. s\<lparr>curr_int_sol := get_integer_solution env (working_model s) False\<rparr>)
          (call (Copy_from_solution_pool (fst e))
             (\<lambda>s. s\<lparr>working_model :=
                     copy_var_list_values_from_solution_pool env (mip s) (working_model s) c r (fst e)\<rparr>)
             st)
      else st)"
  define st2 where "st2 =
     (if k \<ge> 1 then assign (\<lambda>s. s\<lparr>integer_list := integer_list s @ [curr_int_sol s]\<rparr>) st1 else st1)"
  define chk where "chk = solve_and_check env c (Some (fst e)) st2"
  have e1: "emits (body_event c) (snd st) (snd st1)"
    by (simp add: st1_def emits_step)
  have "snd st2 = snd st1"
    by (simp add: st2_def)
  with e1 have e2: "emits (body_event c) (snd st) (snd st2)"
    by simp
  have e3: "emits (body_event c) (snd st) (snd (snd chk))"
    unfolding chk_def by (rule emits_trans [OF e2 solve_and_check_emits])
  have e4: "emits (body_event c) (snd st) (snd (call (Skip_explored (fst e)) (\<lambda>s. s) st1))"
    using e1 by (simp add: emits_snoc)
  have unfold: "explore_solution_pool env c r (e # rest) k lic st =
     (if k \<ge> 1 \<and> curr_int_sol (fst st1) \<in> set (integer_list (fst st1)) then
        explore_solution_pool env c r rest k lic (call (Skip_explored (fst e)) (\<lambda>s. s) st1)
      else if fst chk then (True, snd chk)
      else if k + 1 \<ge> num_solution_iteration c then (lic, snd chk)
      else explore_solution_pool env c r rest (k + 1) lic (snd chk))"
    by (simp only: explore_solution_pool.simps Let_def st1_def st2_def chk_def)
  show ?case
    unfolding unfold
    using e3 emits_trans [OF e4 Cons.IH] emits_trans [OF e3 Cons.IH]
    by simp
qed

lemma subproblem_block_emits:
  assumes "subproblem_block env c res lic st = Inr (fl, lic', st')"
  shows "emits (body_event c) (snd st) (snd st')"
proof (cases "single_tree c")
  case True
  with assms show ?thesis by (simp add: subproblem_block_def)
next
  case False
  show ?thesis
  proof (cases "solution_pool c")
    case False
    with \<open>\<not> single_tree c\<close> assms solve_and_check_emits [of c st env None]
    show ?thesis
      by (auto simp add: subproblem_block_def Let_def split: if_splits)
  next
    case True
    with \<open>\<not> single_tree c\<close> assms show ?thesis
      by (auto simp add: subproblem_block_def split: if_splits option.splits)
         (metis explore_solution_pool_emits snd_conv)+
  qed
qed

lemma subproblem_block_error:
  assumes "subproblem_block env c res lic st = Inl err"
  shows "snd err = st \<and> fst err \<noteq> ValueError"
  using assms unfolding subproblem_block_def
  by (auto simp add: Let_def split: if_splits option.splits)

lemma iteration_emits:
  assumes "iteration env c lic st = r"
  shows "\<exists>more. (case r of Inl err \<Rightarrow> snd (snd err) | Inr out \<Rightarrow> snd (snd (snd out)))
             = snd st @ (Solve_main False, (fst st)\<lparr>mip_subiter := 0\<rparr>) # more
           \<and> (\<forall>e \<in> set more. body_event c e)"
proof -
  obtain fl lic1 mm res st1 where m: "main_solve_block env c lic st = (fl, lic1, mm, res, st1)"
    by (metis prod_cases5)
  from main_solve_block_emits [OF m] obtain more1
    where st1: "snd st1 = snd st @ (Solve_main False, (fst st)\<lparr>mip_subiter := 0\<rparr>) # more1"
      and ok1: "\<forall>e \<in> set more1. body_event c e"
    by blast
  have ext: "emits (body_event c) (snd st1) tr \<Longrightarrow>
     \<exists>more. tr = snd st @ (Solve_main False, (fst st)\<lparr>mip_subiter := 0\<rparr>) # more
           \<and> (\<forall>e \<in> set more. body_event c e)" for tr
    using st1 ok1 by (auto simp add: emits_def)
  show ?thesis
  proof (cases fl)
    case Break
    with m assms ext [of "snd st1"] show ?thesis
      by (auto simp add: iteration_def)
  next
    case Proceed
    show ?thesis
    proof (cases "regularization_block env c mm res st1")
      case (Inl err)
      then have "snd err = st1"
        using regularization_block_error [of env c mm res st1 err] by simp
      with Inl Proceed m assms ext [of "snd st1"] show ?thesis
        by (auto simp add: iteration_def)
    next
      case (Inr out)
      obtain mm' res' st2 where out: "out = (mm', res', st2)"
        by (metis prod_cases3)
      define st3 where "st3 = single_tree_regularization_block env c mm' st2"
      define chk where "chk = call_ret (Algorithm_should_terminate True)
                            (algorithm_should_terminate env c True) st3"
      have e2: "emits (body_event c) (snd st1) (snd st2)"
        using regularization_block_emits Inr out by blast
      have e3: "emits (body_event c) (snd st1) (snd st3)"
        unfolding st3_def by (rule emits_trans [OF e2 single_tree_regularization_block_emits])
      have e4: "emits (body_event c) (snd st1) (snd (snd chk))"
        using e3 by (simp add: chk_def emits_snoc)
      have r: "r = (if fst chk then Inr (Break, False, snd chk)
                    else subproblem_block env c res' lic1 (snd chk))"
        unfolding assms [symmetric] by (simp add: iteration_def m Proceed Inr out Let_def st3_def chk_def)
      show ?thesis
      proof (cases "fst chk")
        case True
        with r ext [OF e4] show ?thesis by simp
      next
        case False
        show ?thesis
        proof (cases "subproblem_block env c res' lic1 (snd chk)")
          case (Inl err)
          then have "snd err = snd chk"
            using subproblem_block_error [of env c res' lic1 "snd chk" err] by simp
          with Inl False r ext [OF e4] show ?thesis by simp
        next
          case (Inr out2)
          obtain fl2 lic2 st5 where out2: "out2 = (fl2, lic2, st5)"
            by (metis prod_cases3)
          have "emits (body_event c) (snd st1) (snd st5)"
            using emits_trans [OF e4 subproblem_block_emits] Inr out2 by blast
          from ext [OF this] Inr out2 False r show ?thesis by simp
        qed
      qed
    qed
  qed
qed


lemma first_main_solve_append:
  "first_main_solve (xs @ ys) = (case first_main_solve xs of None \<Rightarrow> first_main_solve ys | Some b \<Rightarrow> Some b)"
  by (induction xs rule: first_main_solve.induct) simp_all

lemma iteration_error:
  assumes "iteration env c lic st = Inl err"
  shows "fst err \<noteq> ValueError"
proof -
  obtain fl lic1 mm res st1 where m: "main_solve_block env c lic st = (fl, lic1, mm, res, st1)"
    by (metis prod_cases5)
  show ?thesis
  proof (cases fl)
    case Break
    with assms m show ?thesis by (simp add: iteration_def)
  next
    case Proceed
    show ?thesis
    proof (cases "regularization_block env c mm res st1")
      case (Inl e1)
      with assms m Proceed have "err = e1" by (simp add: iteration_def)
      with regularization_block_error [OF Inl] show ?thesis by simp
    next
      case (Inr out)
      obtain mm' res' st2 where out: "out = (mm', res', st2)" by (metis prod_cases3)
      have "subproblem_block env c r l s = Inl err \<Longrightarrow> fst err \<noteq> ValueError" for r l s
        using subproblem_block_error by blast
      with assms m Proceed Inr out show ?thesis
        by (simp add: iteration_def Let_def split: if_splits)
    qed
  qed
qed

lemma while_loop_emits:
  assumes "while_loop fuel env c lic st = Some r"
  shows "\<exists>new. loop_log r = snd st @ new \<and> (\<forall>e \<in> set new. body_event c e)
           \<and> first_main_solve new \<noteq> Some True"
  using assms
proof (induction fuel arbitrary: lic st)
  case 0
  then show ?case by (auto simp add: loop_log_def split: if_splits)
next
  case (Suc n)
  show ?case
  proof (cases "mip_iter (fst st) < iteration_limit c")
    case False
    with Suc.prems show ?thesis by (auto simp add: loop_log_def)
  next
    case True
    define it where "it = iteration env c lic st"
    from iteration_emits [of env c lic st it] obtain more
      where tr: "(case it of Inl err \<Rightarrow> snd (snd err) | Inr out \<Rightarrow> snd (snd (snd out)))
             = snd st @ (Solve_main False, (fst st)\<lparr>mip_subiter := 0\<rparr>) # more"
        and ok: "\<forall>e \<in> set more. body_event c e"
      by (auto simp add: it_def)
    show ?thesis
    proof (cases it)
      case (Inl err)
      with Suc.prems True have "r = Inl err" by (simp add: it_def [symmetric])
      with tr ok Inl show ?thesis by (simp add: loop_log_def)
    next
      case (Inr out)
      obtain fl lic' st' where out: "out = (fl, lic', st')" by (metis prod_cases3)
      show ?thesis
      proof (cases fl)
        case Break
        with Suc.prems True Inr out have "r = Inr (lic', st')" by (simp add: it_def [symmetric])
        with tr ok Inr out show ?thesis by (simp add: loop_log_def)
      next
        case Proceed
        with Suc.prems True Inr out have "while_loop n env c lic' st' = Some r"
          by (simp add: it_def [symmetric])
        from Suc.IH [OF this] obtain new where new: "loop_log r = snd st' @ new"
          "\<forall>e \<in> set new. body_event c e" by blast
        from tr Inr out have "snd st' = snd st @ (Solve_main False, (fst st)\<lparr>mip_subiter := 0\<rparr>) # more"
          by simp
        with new ok show ?thesis by auto
      qed
    qed
  qed
qed

lemma while_loop_error:
  assumes "while_loop fuel env c lic st = Some (Inl err)"
  shows "fst err \<noteq> ValueError"
  using assms
proof (induction fuel arbitrary: lic st)
  case 0
  then show ?case by (simp split: if_splits)
next
  case (Suc n)
  show ?case
  proof (cases "iteration env c lic st")
    case (Inl e1)
    with Suc.prems iteration_error [OF Inl] show ?thesis
      by (simp split: if_splits)
  next
    case (Inr out)
    obtain fl lic' st' where out: "out = (fl, lic', st')" by (metis prod_cases3)
    with Suc.prems Inr Suc.IH show ?thesis
      by (cases fl) (auto split: if_splits)
  qed
qed

text \<open>
  Claim C1. In every run of the iteration loop that ends, with a result or an exception,
  each call of \<^verbatim>\<open>solve_main\<close> with \<^verbatim>\<open>regularization_problem=True\<close> is made on a
  solver object with regularization requested, an incumbent (\<^verbatim>\<open>best_solution_found\<close>
  is not \<^verbatim>\<open>None\<close>) and a dual bound different from the first entry of
  \<^verbatim>\<open>dual_bound_progress\<close>; and the first main solve the loop makes is not regularized.
\<close>

theorem no_premature_regularization:
  assumes "MindtPy_iteration_loop fuel env c st = Some r"
  shows "\<exists>new. log_of r = snd st @ new
           \<and> (\<forall>x. (Solve_main True, x) \<in> set new \<longrightarrow>
                  add_regularization c \<noteq> None \<and> best_solution_found x \<noteq> None
                  \<and> (\<exists>b0 rest. dual_bound_progress x = b0 # rest \<and> dual_bound x \<noteq> b0))
           \<and> first_main_solve new \<noteq> Some True"
proof -
  from assms obtain w where w: "while_loop fuel env c False st = Some w"
    by (auto simp add: MindtPy_iteration_loop_def split: option.splits)
  from while_loop_emits [OF w] obtain new where new: "loop_log w = snd st @ new"
    "\<forall>e \<in> set new. body_event c e" "first_main_solve new \<noteq> Some True"
    by blast
  have guard: "regularization_guard c x \<Longrightarrow>
     add_regularization c \<noteq> None \<and> best_solution_found x \<noteq> None
       \<and> (\<exists>b0 rest. dual_bound_progress x = b0 # rest \<and> dual_bound x \<noteq> b0)" for x :: "'a mindtpy_solver_scheme"
    by (auto simp add: regularization_guard_def split: list.splits)
  show ?thesis
  proof (cases w)
    case (Inl err)
    with assms w have "r = Inl err" by (simp add: MindtPy_iteration_loop_def)
    with new Inl guard show ?thesis
      by (fastforce simp add: log_of_def loop_log_def)
  next
    case (Inr out)
    obtain lic st' where out: "out = (lic, st')" by (cases out)
    with assms w Inr have r: "r = Inr (bound_correction env c lic st')"
      by (simp add: MindtPy_iteration_loop_def)
    have "\<exists>extra. snd (bound_correction env c lic st') = snd st' @ extra
        \<and> (\<forall>x. (Solve_main True, x) \<notin> set extra) \<and> first_main_solve extra = None"
      by (simp add: bound_correction_def)
    then obtain extra where extra: "snd (bound_correction env c lic st') = snd st' @ extra"
      "\<forall>x. (Solve_main True, x) \<notin> set extra" "first_main_solve extra = None"
      by blast
    have "log_of r = snd st @ (new @ extra)"
      using r extra new Inr out by (simp add: log_of_def loop_log_def)
    moreover have "first_main_solve (new @ extra) \<noteq> Some True"
      using new(3) extra(3) by (auto simp add: first_main_solve_append split: option.splits)
    moreover have "\<forall>x. (Solve_main True, x) \<in> set (new @ extra) \<longrightarrow> regularization_guard c x"
      using new(2) extra(2) by fastforce
    ultimately show ?thesis using guard by blast
  qed
qed




text \<open>
  Claim C4, as amended. When the \<^verbatim>\<open>while\<close> loop ends without an exception,
  \<^verbatim>\<open>fix_dual_bound\<close> is called if and only if no-good cuts or the tabu list are
  enabled, \<^verbatim>\<open>should_terminate\<close> is false at loop exit and \<^verbatim>\<open>add_regularization\<close>
  is \<^verbatim>\<open>None\<close>; the call is made once, after the loop, with the \<^verbatim>\<open>last_iter_cuts\<close> of
  the loop.
\<close>

theorem bound_correction_iff:
  assumes "while_loop fuel env c False st = Some (Inr (lic, st1))"
  shows "\<exists>new. MindtPy_iteration_loop fuel env c st = Some (Inr (bound_correction env c lic st1))
           \<and> snd (bound_correction env c lic st1) = snd st @ new
           \<and> ((\<exists>l x. (Fix_dual_bound l, x) \<in> set new) \<longleftrightarrow>
                (add_no_good_cuts c \<or> use_tabu_list c) \<and> \<not> should_terminate (fst st1)
                \<and> add_regularization c = None)
           \<and> (\<forall>l x. (Fix_dual_bound l, x) \<in> set new \<longrightarrow> l = lic \<and> x = fst st1)"
proof -
  from while_loop_emits [OF assms] obtain body where body: "snd st1 = snd st @ body"
    "\<forall>e \<in> set body. body_event c e"
    by (auto simp add: loop_log_def)
  have nofix: "(Fix_dual_bound l, x) \<notin> set body" for l x
    using body(2) by fastforce
  have run: "MindtPy_iteration_loop fuel env c st = Some (Inr (bound_correction env c lic st1))"
    using assms by (simp add: MindtPy_iteration_loop_def)
  show ?thesis
  proof (cases "(add_no_good_cuts c \<or> use_tabu_list c) \<and> \<not> should_terminate (fst st1)
                \<and> add_regularization c = None")
    case True
    then have "snd (bound_correction env c lic st1) = snd st @ (body @ [(Fix_dual_bound lic, fst st1)])"
      by (simp add: bound_correction_def body)
    with run True nofix show ?thesis
      by (intro exI [of _ "body @ [(Fix_dual_bound lic, fst st1)]"]) auto
  next
    case False
    then have "snd (bound_correction env c lic st1) = snd st @ body"
      by (auto simp add: bound_correction_def body)
    with run False nofix show ?thesis
      by (intro exI [of _ body]) auto
  qed
qed

subsection \<open>Where a ValueError can come from\<close>

lemma use_original_objective_error:
  "use_original_objective c h m = Inl err \<Longrightarrow> fst err \<noteq> ValueError"
  by (auto simp add: use_original_objective_def Let_def split: list.splits option.splits if_splits)

lemma initialize_mip_problem_error:
  "initialize_mip_problem env c st = Inl err \<Longrightarrow> fst err \<noteq> ValueError"
  unfolding initialize_mip_problem_def declare_oa_cuts_def declare_fp_orthogonality_cuts_def
  by (cases "single_tree c"; cases "calculate_dual_at_solution c";
      cases "init_strategy c = ''FP''"; cases "fp_projcuts c")
     (auto simp add: Let_def split: option.splits if_splits)

lemma iteration_loop_error:
  assumes "MindtPy_iteration_loop fuel env c st = Some (Inl err)"
  shows "fst err \<noteq> ValueError"
  using assms while_loop_error [of fuel env c False st err]
  by (auto simp add: MindtPy_iteration_loop_def split: option.splits sum.splits)

lemma solve_run_error:
  assumes "solve_run fuel env c st = Some (Inl err)"
  shows "fst err \<noteq> ValueError"
proof (cases "initialize_mip_problem env c st")
  case (Inl e1)
  with assms initialize_mip_problem_error [OF Inl] show ?thesis
    by (auto simp add: solve_run_def split: prod.splits)
next
  case (Inr st9)
  then show ?thesis
    using assms iteration_loop_error
    by (fastforce simp add: solve_run_def Let_def split: option.splits sum.splits)
qed

lemma solve_setup_value_error:
  assumes "solve_setup env c model s = Inl (ValueError, c', st')"
  shows "single_tree c \<and> mip_solver c \<notin> {''cplex_persistent'', ''gurobi_persistent''} \<and> st' = (s, [])"
proof (cases "check_config env c s")
  case (Inl err)
  then have "single_tree c \<and> mip_solver c \<notin> {''cplex_persistent'', ''gurobi_persistent''}"
    using check_config_error_iff [of env c s] by (cases err) auto
  moreover from this have "check_config env c s =
      Inl (ValueError, (check_regularization c)\<lparr>iteration_limit := 1, add_slack := False\<rparr>, s)"
    by (simp add: check_config_value_error)
  ultimately show ?thesis using assms by (simp add: solve_setup_def)
next
  case (Inr ok)
  obtain c1 s1 where ok: "ok = (c1, s1)" by (cases ok)
  from assms Inr ok use_original_objective_error show ?thesis
    by (fastforce simp add: solve_setup_def prepare_model_def Let_def split: if_splits sum.splits)
qed

text \<open>
  Claim C8. With \<^verbatim>\<open>single_tree\<close> and a solver other than \<^verbatim>\<open>cplex_persistent\<close> and
  \<^verbatim>\<open>gurobi_persistent\<close>, \<^verbatim>\<open>check_config\<close> raises \<^verbatim>\<open>ValueError\<close> and so does
  \<^verbatim>\<open>solve\<close>, with an empty call log and the solver object untouched; a \<^verbatim>\<open>ValueError\<close>
  of \<^verbatim>\<open>solve\<close> has no other origin, and the iteration loop never raises one.
\<close>

theorem value_error_at_setup_only:
  "(single_tree c \<and> mip_solver c \<notin> {''cplex_persistent'', ''gurobi_persistent''} \<longrightarrow>
      (\<exists>c'. check_config env c s = Inl (ValueError, c', s)
           \<and> solve fuel env c model s = Some (Inl (ValueError, c', (s, [])))))
   \<and> (\<forall>c' st'. solve fuel env c model s = Some (Inl (ValueError, c', st')) \<longrightarrow>
         single_tree c \<and> mip_solver c \<notin> {''cplex_persistent'', ''gurobi_persistent''} \<and> st' = (s, []))
   \<and> (\<forall>n st err. MindtPy_iteration_loop n env c st = Some (Inl err) \<longrightarrow> fst err \<noteq> ValueError)"
proof -
  have raised: "\<exists>c'. check_config env c s = Inl (ValueError, c', s)
           \<and> solve fuel env c model s = Some (Inl (ValueError, c', (s, [])))"
    if "single_tree c \<and> mip_solver c \<notin> {''cplex_persistent'', ''gurobi_persistent''}"
  proof -
    from that have "check_config env c s =
        Inl (ValueError, (check_regularization c)\<lparr>iteration_limit := 1, add_slack := False\<rparr>, s)"
      by (simp add: check_config_value_error)
    then show ?thesis by (simp add: solve_def solve_setup_def)
  qed
  have only: "single_tree c \<and> mip_solver c \<notin> {''cplex_persistent'', ''gurobi_persistent''} \<and> st' = (s, [])"
    if a: "solve fuel env c model s = Some (Inl (ValueError, c', st'))" for c' st'
  proof (cases "solve_setup env c model s")
    case (Inl err)
    with a have "solve_setup env c model s = Inl (ValueError, c', st')"
      by (simp add: solve_def)
    then show ?thesis by (rule solve_setup_value_error)
  next
    case (Inr ok)
    obtain v c1 st1 where ok: "ok = (v, c1, st1)" by (metis prod_cases3)
    show ?thesis
    proof (cases v)
      case True
      with a Inr ok have "solve_run fuel env c1 st1 = Some (Inl (ValueError, c', st'))"
        by (simp add: solve_def)
      from solve_run_error [OF this] show ?thesis by simp
    next
      case False
      with a Inr ok show ?thesis by (simp add: solve_def)
    qed
  qed
  have loop: "fst err \<noteq> ValueError"
    if "MindtPy_iteration_loop n env c st = Some (Inl err)" for n st err
    using that by (rule iteration_loop_error)
  from raised only loop show ?thesis by blast
qed



subsection \<open>The solution pool\<close>








subsection \<open>Cycling\<close>






subsection \<open>The call log is a ghost\<close>

lemma main_solve_block_ghost:
  assumes "fst st = fst st'"
  shows "map_prod id (map_prod id (map_prod id (map_prod id fst))) (main_solve_block env c lic st)
       = map_prod id (map_prod id (map_prod id (map_prod id fst))) (main_solve_block env c lic st')"
  using assms unfolding main_solve_block_def
  by (simp add: Let_def split: option.splits)

lemma regularization_block_ghost:
  assumes "fst st = fst st'"
  shows "map_sum (map_prod id fst) (map_prod id (map_prod id fst)) (regularization_block env c mm res st)
       = map_sum (map_prod id fst) (map_prod id (map_prod id fst)) (regularization_block env c mm res st')"
  using assms unfolding regularization_block_def
  by (simp add: Let_def split: list.splits)

lemma single_tree_regularization_block_ghost:
  assumes "fst st = fst st'"
  shows "fst (single_tree_regularization_block env c mm st)
       = fst (single_tree_regularization_block env c mm st')"
  using assms unfolding single_tree_regularization_block_def
  by (simp add: Let_def)

lemma solve_and_check_ghost:
  assumes "fst st = fst st'"
  shows "map_prod id fst (solve_and_check env c n st) = map_prod id fst (solve_and_check env c n st')"
  using assms unfolding solve_and_check_def
  by (simp add: Let_def call_ret_def call_def)

lemma explore_solution_pool_ghost:
  assumes "fst st = fst st'"
  shows "map_prod id fst (explore_solution_pool env c r xs k lic st)
       = map_prod id fst (explore_solution_pool env c r xs k lic st')"
  using assms
proof (induction xs arbitrary: k st st')
  case Nil
  then show ?case by simp
next
  case (Cons e rest)
  define load where "load = (\<lambda>st :: 'a run.
     (if k \<ge> 1 then
        assign (\<lambda>s. s\<lparr>curr_int_sol := get_integer_solution env (working_model s) False\<rparr>)
          (call (Copy_from_solution_pool (fst e))
             (\<lambda>s. s\<lparr>working_model :=
                     copy_var_list_values_from_solution_pool env (mip s) (working_model s) c r (fst e)\<rparr>)
             st)
      else st))"
  define rec where "rec = (\<lambda>st1 :: 'a run.
     (if k \<ge> 1 then assign (\<lambda>s. s\<lparr>integer_list := integer_list s @ [curr_int_sol s]\<rparr>) st1 else st1))"
  define chk where "chk = (\<lambda>st :: 'a run. solve_and_check env c (Some (fst e)) (rec (load st)))"
  have unfold: "explore_solution_pool env c r (e # rest) k lic st =
     (if k \<ge> 1 \<and> curr_int_sol (fst (load st)) \<in> set (integer_list (fst (load st))) then
        explore_solution_pool env c r rest k lic (call (Skip_explored (fst e)) (\<lambda>s. s) (load st))
      else if fst (chk st) then (True, snd (chk st))
      else if k + 1 \<ge> num_solution_iteration c then (lic, snd (chk st))
      else explore_solution_pool env c r rest (k + 1) lic (snd (chk st)))" for st
    by (simp only: explore_solution_pool.simps Let_def load_def rec_def chk_def)
  have l: "fst (load st) = fst (load st')"
    using Cons.prems by (simp add: load_def)
  then have "fst (rec (load st)) = fst (rec (load st'))"
    by (simp add: rec_def)
  from solve_and_check_ghost [OF this, of env c "Some (fst e)"]
  have c3: "fst (chk st) = fst (chk st')" "fst (snd (chk st)) = fst (snd (chk st'))"
    by (simp_all add: chk_def map_prod_def split_beta)
  have sk: "fst (call (Skip_explored (fst e)) (\<lambda>s. s) (load st))
          = fst (call (Skip_explored (fst e)) (\<lambda>s. s) (load st'))"
    using l by simp
  show ?case
    unfolding unfold [of st] unfold [of st']
    using l c3 Cons.IH [OF sk] Cons.IH [OF c3(2)]
    by simp
qed

lemma subproblem_block_ghost:
  assumes "fst st = fst st'"
  shows "map_sum (map_prod id fst) (map_prod id (map_prod id fst)) (subproblem_block env c res lic st)
       = map_sum (map_prod id fst) (map_prod id (map_prod id fst)) (subproblem_block env c res lic st')"
proof -
  have a: "fst (solve_and_check env c None st) = fst (solve_and_check env c None st')"
    "fst (snd (solve_and_check env c None st)) = fst (snd (solve_and_check env c None st'))"
    using solve_and_check_ghost [OF assms, of env c None]
    by (simp_all add: map_prod_def split_beta)
  have b: "fst (explore_solution_pool env c r xs k lic st) = fst (explore_solution_pool env c r xs k lic st')"
    "fst (snd (explore_solution_pool env c r xs k lic st)) = fst (snd (explore_solution_pool env c r xs k lic st'))"
    for r xs k
    using explore_solution_pool_ghost [OF assms, of env c r xs k lic]
    by (simp_all add: map_prod_def split_beta)
  show ?thesis
    unfolding subproblem_block_def
    using assms a b
    by (simp add: Let_def map_prod_def split_beta split: option.splits)
qed


lemma iteration_ghost:
  assumes "fst st = fst st'"
  shows "map_sum (map_prod id fst) (map_prod id (map_prod id fst)) (iteration env c lic st)
       = map_sum (map_prod id fst) (map_prod id (map_prod id fst)) (iteration env c lic st')"
proof -
  obtain fl l mm res st1 where m: "main_solve_block env c lic st = (fl, l, mm, res, st1)"
    by (metis prod_cases5)
  obtain fl' l' mm2 res2 st1' where m': "main_solve_block env c lic st' = (fl', l', mm2, res2, st1')"
    by (metis prod_cases5)
  from main_solve_block_ghost [OF assms, of env c lic] m m'
  have eq1: "fl' = fl" "l' = l" "mm2 = mm" "res2 = res" "fst st1 = fst st1'"
    by simp_all
  show ?thesis
  proof (cases fl)
    case Break
    with m m' eq1 show ?thesis by (simp add: iteration_def)
  next
    case Proceed
    show ?thesis
    proof (cases "regularization_block env c mm res st1")
      case (Inl err)
      with regularization_block_ghost [OF eq1(5), of env c mm res]
      obtain err' where "regularization_block env c mm res st1' = Inl err'"
        "map_prod id fst err' = map_prod id fst err"
        by (cases "regularization_block env c mm res st1'") auto
      with Inl m m' eq1 Proceed show ?thesis by (simp add: iteration_def)
    next
      case (Inr out)
      obtain mm3 res3 st2 where out: "out = (mm3, res3, st2)" by (metis prod_cases3)
      from regularization_block_ghost [OF eq1(5), of env c mm res] Inr out
      obtain st2' where r': "regularization_block env c mm res st1' = Inr (mm3, res3, st2')"
        and eq2: "fst st2 = fst st2'"
        by (cases "regularization_block env c mm res st1'") auto
      define st3 where "st3 = single_tree_regularization_block env c mm3 st2"
      define st3' where "st3' = single_tree_regularization_block env c mm3 st2'"
      have eq3: "fst st3 = fst st3'"
        unfolding st3_def st3'_def by (rule single_tree_regularization_block_ghost [OF eq2])
      define chk where "chk = call_ret (Algorithm_should_terminate True)
                            (algorithm_should_terminate env c True) st3"
      define chk' where "chk' = call_ret (Algorithm_should_terminate True)
                            (algorithm_should_terminate env c True) st3'"
      have eq4: "fst chk = fst chk'" "fst (snd chk) = fst (snd chk')"
        using eq3 by (simp_all add: chk_def chk'_def)
      have it: "iteration env c lic st = (if fst chk then Inr (Break, False, snd chk)
                    else subproblem_block env c res3 l (snd chk))"
        by (simp add: iteration_def m Proceed Inr out Let_def st3_def chk_def)
      have it': "iteration env c lic st' = (if fst chk' then Inr (Break, False, snd chk')
                    else subproblem_block env c res3 l (snd chk'))"
        by (simp add: iteration_def m' eq1 Proceed r' Let_def st3'_def chk'_def)
      show ?thesis
        unfolding it it'
        using eq4 subproblem_block_ghost [OF eq4(2), of env c res3 l]
        by simp
    qed
  qed
qed

lemma while_loop_ghost:
  assumes "fst st = fst st'"
  shows "map_option (map_sum (map_prod id fst) (map_prod id fst)) (while_loop n env c lic st)
       = map_option (map_sum (map_prod id fst) (map_prod id fst)) (while_loop n env c lic st')"
  using assms
proof (induction n arbitrary: lic st st')
  case 0
  then show ?case by simp
next
  case (Suc n)
  show ?case
  proof (cases "mip_iter (fst st) < iteration_limit c")
    case False
    with Suc.prems show ?thesis by simp
  next
    case True
    note g = iteration_ghost [OF Suc.prems, of env c lic]
    show ?thesis
    proof (cases "iteration env c lic st")
      case (Inl err)
      with g obtain err' where "iteration env c lic st' = Inl err'"
        "map_prod id fst err' = map_prod id fst err"
        by (cases "iteration env c lic st'") auto
      with Inl True Suc.prems show ?thesis by (auto simp add: id_def)
    next
      case (Inr out)
      obtain fl l st1 where out: "out = (fl, l, st1)" by (metis prod_cases3)
      from g Inr out obtain st1' where i': "iteration env c lic st' = Inr (fl, l, st1')"
        and eq: "fst st1 = fst st1'"
        by (cases "iteration env c lic st'") auto
      show ?thesis
        using True Suc.prems Inr out i' eq Suc.IH [OF eq, of l]
        by (cases fl) simp_all
    qed
  qed
qed

lemma iteration_loop_ghost:
  assumes "fst st = fst st'"
  shows "map_option (map_sum (map_prod id fst) fst) (MindtPy_iteration_loop n env c st)
       = map_option (map_sum (map_prod id fst) fst) (MindtPy_iteration_loop n env c st')"
proof -
  note g = while_loop_ghost [OF assms, of n env c False]
  show ?thesis
  proof (cases "while_loop n env c False st")
    case None
    with g have "while_loop n env c False st' = None" by simp
    with None show ?thesis by (simp add: MindtPy_iteration_loop_def)
  next
    case (Some w)
    with g obtain w' where w': "while_loop n env c False st' = Some w'"
      "map_sum (map_prod id fst) (map_prod id fst) w' = map_sum (map_prod id fst) (map_prod id fst) w"
      by (cases "while_loop n env c False st'") auto
    show ?thesis
    proof (cases w)
      case (Inl err)
      with w' obtain err' where "w' = Inl err'" "map_prod id fst err' = map_prod id fst err"
        by (cases w') auto
      with Inl Some w' show ?thesis by (simp add: MindtPy_iteration_loop_def)
    next
      case (Inr out)
      obtain l st1 where out: "out = (l, st1)" by (cases out)
      with Inr w' obtain st1' where "w' = Inr (l, st1')" "fst st1 = fst st1'"
        by (cases w') auto
      with Inr out Some w' show ?thesis
        by (simp add: MindtPy_iteration_loop_def bound_correction_def)
    qed
  qed
qed

lemma initialize_mip_problem_ghost:
  assumes "fst st = fst st'"
  shows "map_sum (map_prod id fst) fst (initialize_mip_problem env c st)
       = map_sum (map_prod id fst) fst (initialize_mip_problem env c st')"
  using assms unfolding initialize_mip_problem_def declare_oa_cuts_def declare_fp_orthogonality_cuts_def
  by (cases "single_tree c"; cases "calculate_dual_at_solution c";
      cases "init_strategy c = ''FP''"; cases "fp_projcuts c")
     (auto simp add: Let_def split: option.splits)

lemma solve_run_ghost:
  assumes "fst st = fst st'"
  shows "outcome (solve_run n env c st) = outcome (solve_run n env c st')"
proof -
  note g = initialize_mip_problem_ghost [OF assms, of env c]
  show ?thesis
  proof (cases "initialize_mip_problem env c st")
    case (Inl err)
    with g obtain err' where "initialize_mip_problem env c st' = Inl err'"
      "map_prod id fst err' = map_prod id fst err"
      by (cases "initialize_mip_problem env c st'") auto
    with Inl show ?thesis
      by (cases err; cases err') (simp add: solve_run_def outcome_def)
  next
    case (Inr st9)
    with g obtain st9' where i': "initialize_mip_problem env c st' = Inr st9'" and eq: "fst st9 = fst st9'"
      by (cases "initialize_mip_problem env c st'") auto
    define a where "a = call Call_MindtPy_initialization (MindtPy_initialization env c) st9"
    define a' where "a' = call Call_MindtPy_initialization (MindtPy_initialization env c) st9'"
    have "fst a = fst a'" using eq by (simp add: a_def a'_def)
    note l = iteration_loop_ghost [OF this, of n env c]
    have r: "solve_run n env c st =
       (case MindtPy_iteration_loop n env c a of
             None \<Rightarrow> None
           | Some (Inl (e, st')) \<Rightarrow> Some (Inl (e, c, st'))
           | Some (Inr st10) \<Rightarrow>
               (let st11 = (if best_solution_found (fst st10) \<noteq> None
                            then call Load_solution (load_solution env) st10
                            else st10);
                    st12 = call Get_integral_info (get_integral_info env) st11;
                    st13 = call Update_result (update_result env) st12;
                    st14 = (if single_tree c
                            then assign (\<lambda>s. s\<lparr>results := (results s)
                                   \<lparr>num_nodes := Some (nlp_iter s -
                                      (if init_strategy c = ''rNLP'' then 1 else 0))\<rparr>\<rparr>) st13
                            else st13)
                in Some (Inr (Some (results (fst st14)), c, st14))))"
      by (simp add: solve_run_def Inr a_def)
    have r': "solve_run n env c st' =
       (case MindtPy_iteration_loop n env c a' of
             None \<Rightarrow> None
           | Some (Inl (e, st')) \<Rightarrow> Some (Inl (e, c, st'))
           | Some (Inr st10) \<Rightarrow>
               (let st11 = (if best_solution_found (fst st10) \<noteq> None
                            then call Load_solution (load_solution env) st10
                            else st10);
                    st12 = call Get_integral_info (get_integral_info env) st11;
                    st13 = call Update_result (update_result env) st12;
                    st14 = (if single_tree c
                            then assign (\<lambda>s. s\<lparr>results := (results s)
                                   \<lparr>num_nodes := Some (nlp_iter s -
                                      (if init_strategy c = ''rNLP'' then 1 else 0))\<rparr>\<rparr>) st13
                            else st13)
                in Some (Inr (Some (results (fst st14)), c, st14))))"
      by (simp add: solve_run_def i' a'_def)
    show ?thesis
    proof (cases "MindtPy_iteration_loop n env c a")
      case None
      with l have "MindtPy_iteration_loop n env c a' = None" by simp
      with None show ?thesis by (simp add: r r')
    next
      case (Some w)
      with l obtain w' where w': "MindtPy_iteration_loop n env c a' = Some w'"
        "map_sum (map_prod id fst) fst w' = map_sum (map_prod id fst) fst w"
        by (cases "MindtPy_iteration_loop n env c a'") auto
      show ?thesis
      proof (cases w)
        case (Inl err)
        with w' obtain err' where "w' = Inl err'" "map_prod id fst err' = map_prod id fst err"
          by (cases w') auto
        with Inl Some w' show ?thesis
          by (cases err; cases err') (simp add: r r' outcome_def)
      next
        case (Inr st10)
        with w' obtain st10' where "w' = Inr st10'" "fst st10' = fst st10"
          by (cases w') auto
        with Inr Some w' show ?thesis
          by (simp add: r r' outcome_def Let_def)
      qed
    qed
  qed
qed

subsection \<open>The incumbent of an earlier run\<close>

lemma same_but_incumbent_fields:
  assumes "same_but_incumbent u v"
  shows "working_model u = working_model v"
    "mip_objective_polynomial_degree u = mip_objective_polynomial_degree v"
    "mip_constraint_polynomial_degree u = mip_constraint_polynomial_degree v"
proof -
  have "working_model (reset_incumbent u) = working_model (reset_incumbent v)"
    "mip_objective_polynomial_degree (reset_incumbent u) = mip_objective_polynomial_degree (reset_incumbent v)"
    "mip_constraint_polynomial_degree (reset_incumbent u) = mip_constraint_polynomial_degree (reset_incumbent v)"
    using assms by (simp_all add: same_but_incumbent_def)
  then show "working_model u = working_model v"
    "mip_objective_polynomial_degree u = mip_objective_polynomial_degree v"
    "mip_constraint_polynomial_degree u = mip_constraint_polynomial_degree v"
    by (simp_all add: reset_incumbent_def)
qed

lemma same_but_incumbent_decomp:
  assumes "same_but_incumbent u v"
  shows "u = v\<lparr>best_solution_found := best_solution_found u,
               best_solution_found_time := best_solution_found_time u\<rparr>"
proof -
  have "u = (reset_incumbent u)\<lparr>best_solution_found := best_solution_found u,
               best_solution_found_time := best_solution_found_time u\<rparr>"
    by (simp add: reset_incumbent_def)
  also have "\<dots> = (reset_incumbent v)\<lparr>best_solution_found := best_solution_found u,
               best_solution_found_time := best_solution_found_time u\<rparr>"
    using assms by (simp add: same_but_incumbent_def)
  also have "\<dots> = v\<lparr>best_solution_found := best_solution_found u,
               best_solution_found_time := best_solution_found_time u\<rparr>"
    by (simp add: reset_incumbent_def)
  finally show ?thesis .
qed

lemma same_but_incumbent_update [simp]:
  "same_but_incumbent (s\<lparr>best_solution_found := x, best_solution_found_time := t\<rparr>) s"
  by (simp add: same_but_incumbent_def reset_incumbent_def)

lemma same_but_incumbent_blind:
  assumes "incumbent_blind f" "same_but_incumbent u v"
  shows "same_but_incumbent (f u) (f v)"
proof -
  from same_but_incumbent_decomp [OF assms(2)] obtain x t
    where "u = v\<lparr>best_solution_found := x, best_solution_found_time := t\<rparr>" by blast
  with assms(1) show ?thesis
    by (simp add: incumbent_blind_def same_but_incumbent_def)
qed

lemma same_but_incumbent_working_model:
  assumes "same_but_incumbent u v"
  shows "same_but_incumbent (u\<lparr>working_model := m\<rparr>) (v\<lparr>working_model := m\<rparr>)"
proof -
  have "reset_incumbent (w\<lparr>working_model := m\<rparr>) = (reset_incumbent w)\<lparr>working_model := m\<rparr>"
    for w :: "'a mindtpy_solver_scheme"
    by (simp add: reset_incumbent_def)
  with assms show ?thesis by (simp add: same_but_incumbent_def)
qed

lemma same_but_incumbent_initial_values:
  assumes "same_but_incumbent u v"
  shows "same_but_incumbent (u\<lparr>initial_var_values := m\<rparr>) (v\<lparr>initial_var_values := m\<rparr>)"
proof -
  have "reset_incumbent (w\<lparr>initial_var_values := m\<rparr>) = (reset_incumbent w)\<lparr>initial_var_values := m\<rparr>"
    for w :: "'a mindtpy_solver_scheme"
    by (simp add: reset_incumbent_def)
  with assms show ?thesis by (simp add: same_but_incumbent_def)
qed

lemma prepare_model_reset:
  assumes "prepare_model env c model s = Inr (True, c', st)"
  shows "best_solution_found (fst st) = None \<and> best_solution_found_time (fst st) = None"
  using assms unfolding prepare_model_def
  by (auto simp add: Let_def split: if_splits sum.splits prod.splits)

lemma prepare_model_blind:
  assumes blind: "setup_incumbent_blind env model" and uv: "same_but_incumbent u v"
  shows "map_sum fst (\<lambda>r. (fst r, fst (snd r), if fst r then Some (fst (snd (snd r))) else None))
           (prepare_model env c model u)
       = map_sum fst (\<lambda>r. (fst r, fst (snd r), if fst r then Some (fst (snd (snd r))) else None))
           (prepare_model env c model v)"
proof -
  define itb where "itb = (\<lambda>s :: 'a mindtpy_solver_scheme. if integer_to_binary c
       then s\<lparr>working_model := integer_to_binary_transformation env (working_model s)\<rparr> else s)"
  define cub where "cub = (\<lambda>s :: 'a mindtpy_solver_scheme.
       s\<lparr>working_model := create_utility_block env (working_model s)\<rparr>)"
  define po where "po = (\<lambda>s :: 'a mindtpy_solver_scheme. process_objective env c (move_objective c) (use_mcpp c)
                               (add_regularization c = None) (partition_obj_nonlinear_terms c)
                               (mip_objective_polynomial_degree s)
                               (mip_constraint_polynomial_degree s) s)"
  define s3 where "s3 = (\<lambda>s. cub (itb (set_up_solve_data env model c s)))"
  define s5 where "s5 = (\<lambda>s. po (setup_results_object env c (snd (model_is_valid env c (s3 s)))))"
  have b: "incumbent_blind (set_up_solve_data env model c)" "incumbent_blind (setup_results_object env c)"
    "\<And>a b d e f g. incumbent_blind (process_objective env c a b d e f g)"
    using blind by (simp_all add: setup_incumbent_blind_def)
  have valid: "fst (model_is_valid env c p) = fst (model_is_valid env c q)
      \<and> same_but_incumbent (snd (model_is_valid env c p)) (snd (model_is_valid env c q))"
    if "same_but_incumbent p q" for p q
  proof -
    from same_but_incumbent_decomp [OF that] obtain x t
      where "p = q\<lparr>best_solution_found := x, best_solution_found_time := t\<rparr>" by blast
    with blind show ?thesis
      by (simp add: setup_incumbent_blind_def same_but_incumbent_def)
  qed
  have e1: "same_but_incumbent (set_up_solve_data env model c u) (set_up_solve_data env model c v)"
    by (rule same_but_incumbent_blind [OF b(1) uv])
  have e2: "same_but_incumbent (itb p) (itb q)" if "same_but_incumbent p q" for p q
    using that same_but_incumbent_fields(1) [OF that] same_but_incumbent_working_model [OF that]
    by (simp add: itb_def)
  have e3: "same_but_incumbent (cub p) (cub q)" if "same_but_incumbent p q" for p q
    using that same_but_incumbent_fields(1) [OF that] same_but_incumbent_working_model [OF that]
    by (simp add: cub_def)
  have e4: "same_but_incumbent (s3 u) (s3 v)"
    unfolding s3_def by (intro e3 e2 e1)
  have e5: "same_but_incumbent (po p) (po q)" if "same_but_incumbent p q" for p q
    using same_but_incumbent_fields(2,3) [OF that] same_but_incumbent_blind [OF b(3) that]
    by (simp add: po_def)
  have v: "fst (model_is_valid env c (s3 u)) = fst (model_is_valid env c (s3 v))"
    and e6: "same_but_incumbent (snd (model_is_valid env c (s3 u))) (snd (model_is_valid env c (s3 v)))"
    using valid [OF e4] by simp_all
  have e7: "same_but_incumbent (s5 u) (s5 v)"
    unfolding s5_def by (intro e5 same_but_incumbent_blind [OF b(2)] e6)
  have unfold: "map_sum fst (\<lambda>r. (fst r, fst (snd r), if fst r then Some (fst (snd (snd r))) else None))
           (prepare_model env c model s) =
     (if \<not> fst (model_is_valid env c (s3 s)) then Inr (False, c, None)
      else case use_original_objective c (mip_objective_polynomial_degree (s5 s)) (working_model (s5 s)) of
             Inl err \<Rightarrow> Inl (fst err)
           | Inr m \<Rightarrow> Inr (True, c,
               Some (reset_incumbent ((s5 s)\<lparr>working_model := m\<rparr>\<lparr>initial_var_values := variable_values m\<rparr>))))"
    for s
    by (simp add: prepare_model_def Let_def s3_def s5_def po_def cub_def itb_def reset_incumbent_def
        split: sum.splits prod.splits)
  have fin: "reset_incumbent ((s5 u)\<lparr>working_model := m\<rparr>\<lparr>initial_var_values := w\<rparr>)
           = reset_incumbent ((s5 v)\<lparr>working_model := m\<rparr>\<lparr>initial_var_values := w\<rparr>)" for m w
    using same_but_incumbent_initial_values [OF same_but_incumbent_working_model [OF e7]]
    by (simp add: same_but_incumbent_def)
  show ?thesis
    unfolding unfold [of u] unfold [of v]
    using v same_but_incumbent_fields [OF e7] fin
    by (simp split: sum.splits)
qed

text \<open>
  Claim C10. \<^verbatim>\<open>solve\<close> resets \<^verbatim>\<open>best_solution_found\<close> and
  \<^verbatim>\<open>best_solution_found_time\<close> to \<^verbatim>\<open>None\<close> at the end of its setup, so that
  \<^verbatim>\<open>initialize_mip_problem\<close> and all that follows start from an incumbent-free solver
  object. And what \<^verbatim>\<open>solve\<close> raises or returns is the same whatever incumbent the solver
  object held before the call, provided the collaborators called before the reset are
  blind to the incumbent fields.
\<close>

theorem solve_ignores_old_incumbent:
  assumes "setup_incumbent_blind env model"
  shows "outcome (solve fuel env options model
                    (s\<lparr>best_solution_found := x, best_solution_found_time := t\<rparr>))
           = outcome (solve fuel env options model s)
         \<and> (\<forall>c st. solve_setup env options model s = Inr (True, c, st) \<longrightarrow>
               best_solution_found (fst st) = None \<and> best_solution_found_time (fst st) = None
               \<and> solve fuel env options model s = solve_run fuel env c st)"
proof -
  let ?s' = "s\<lparr>best_solution_found := x, best_solution_found_time := t\<rparr>"
  let ?proj = "map_sum fst (\<lambda>r. (fst r, fst (snd r), if fst r then Some (fst (snd (snd r))) else None))
      :: (py_error \<times> mindtpy_config \<times> 'a run) + (bool \<times> mindtpy_config \<times> 'a run) \<Rightarrow> _"
  have reset: "best_solution_found (fst st) = None \<and> best_solution_found_time (fst st) = None
               \<and> solve fuel env options model s = solve_run fuel env c st"
    if "solve_setup env options model s = Inr (True, c, st)" for c st
  proof -
    from that obtain c0 s1 where "prepare_model env c0 model s1 = Inr (True, c, st)"
      by (auto simp add: solve_setup_def split: sum.splits prod.splits)
    from prepare_model_reset [OF this] that show ?thesis
      by (simp add: solve_def)
  qed
  have agree: "?proj (solve_setup env options model ?s') = ?proj (solve_setup env options model s)"
  proof (cases "check_single_tree (check_regularization options)")
    case (Inl err)
    then show ?thesis
      by (cases err) (simp add: solve_setup_def check_config_def)
  next
    case (Inr c1)
    define c2 where "c2 = check_relaxation c1"
    define u0 where "u0 = s\<lparr>regularization_mip_type := regularization_type c2 (regularization_mip_type s)\<rparr>"
    have u0': "?s'\<lparr>regularization_mip_type := regularization_type c2 (regularization_mip_type ?s')\<rparr>
        = u0\<lparr>best_solution_found := x, best_solution_found_time := t\<rparr>"
      by (simp add: u0_def)
    obtain cb sb where base: "base_check_config env (c2, u0) = (cb, sb)" by (cases "base_check_config env (c2, u0)")
    obtain cb' sb' where base': "base_check_config env (c2, u0\<lparr>best_solution_found := x, best_solution_found_time := t\<rparr>) = (cb', sb')"
      by (cases "base_check_config env (c2, u0\<lparr>best_solution_found := x, best_solution_found_time := t\<rparr>)")
    from assms have "fst (base_check_config env (c2, u0\<lparr>best_solution_found := x, best_solution_found_time := t\<rparr>))
           = fst (base_check_config env (c2, u0))
         \<and> reset_incumbent (snd (base_check_config env
               (c2, u0\<lparr>best_solution_found := x, best_solution_found_time := t\<rparr>)))
           = reset_incumbent (snd (base_check_config env (c2, u0)))"
      unfolding setup_incumbent_blind_def by blast
    with base base' have cb: "cb' = cb" and sb: "same_but_incumbent sb' sb"
      by (simp_all add: same_but_incumbent_def)
    have l: "solve_setup env options model s = prepare_model env cb model sb"
      by (simp add: solve_setup_def check_config_def Inr Let_def c2_def [symmetric] u0_def [symmetric] base)
    have l': "solve_setup env options model ?s' = prepare_model env cb model sb'"
      unfolding solve_setup_def check_config_def Inr
      by (simp only: sum.case Let_def c2_def [symmetric] u0' base' cb prod.case)
    show ?thesis
      unfolding l l' by (rule prepare_model_blind [OF assms sb])
  qed
  have "outcome (solve fuel env options model ?s') = outcome (solve fuel env options model s)"
  proof (cases "solve_setup env options model s")
    case (Inl err)
    with agree obtain err' where "solve_setup env options model ?s' = Inl err'" "fst err' = fst err"
      by (cases "solve_setup env options model ?s'") auto
    with Inl show ?thesis by (simp add: solve_def outcome_def)
  next
    case (Inr ok)
    obtain v c st where ok: "ok = (v, c, st)" by (metis prod_cases3)
    with agree Inr obtain st' where s': "solve_setup env options model ?s' = Inr (v, c, st')"
      and eq: "v \<longrightarrow> fst st' = fst st"
      by (cases "solve_setup env options model ?s'") (auto split: if_splits)
    show ?thesis
    proof (cases v)
      case True
      with eq have "fst st' = fst st" by simp
      from solve_run_ghost [OF this, of fuel env c] Inr ok s' True show ?thesis
        by (simp add: solve_def)
    next
      case False
      with Inr ok s' show ?thesis by (simp add: solve_def outcome_def)
    qed
  qed
  with reset show ?thesis by blast
qed

subsection \<open>The worked instance, run\<close>

lemmas block_defs = main_solve_block_def regularization_block_def single_tree_regularization_block_def
  solve_and_check_def subproblem_block_def iteration_def bound_correction_def MindtPy_iteration_loop_def
  call_def call_ret_def assign_def Let_def

lemmas example_defs = example_config_def example_solver_def example_collaborators_def
  example_results_def example_model_def

text \<open>
  A run with \<^verbatim>\<open>level_L1\<close> regularization, an incumbent and a moved dual bound: the
  first main solve is plain, a regularized one follows.
\<close>

theorem no_premature_regularization_witness:
  "map_option (map fst \<circ> log_of)
     (MindtPy_iteration_loop (Suc 0) example_collaborators
        (example_config\<lparr>add_regularization := Some ''level_L1''\<rparr>)
        (example_solver\<lparr>best_solution_found := Some example_model, dual_bound := Finite 1\<rparr>, []))
     = Some [Solve_main False, Handle_main_optimal, Call_after_main_solve,
             Solve_main True, Handle_regularization_main_tc, Algorithm_should_terminate True,
             Solve_subproblem None, Handle_nlp_subproblem_tc, Call_after_subproblem_solve,
             Algorithm_should_terminate False]
   \<and> map_option (first_main_solve \<circ> log_of)
     (MindtPy_iteration_loop (Suc 0) example_collaborators
        (example_config\<lparr>add_regularization := Some ''level_L1''\<rparr>)
        (example_solver\<lparr>best_solution_found := Some example_model, dual_bound := Finite 1\<rparr>, []))
     = Some (Some False)"
proof -
  let ?c = "example_config\<lparr>add_regularization := Some ''level_L1''\<rparr>"
  let ?s = "example_solver\<lparr>best_solution_found := Some example_model, dual_bound := Finite 1\<rparr>"
  have "\<exists>r. MindtPy_iteration_loop (Suc 0) example_collaborators ?c (?s, []) = Some r
     \<and> map fst (log_of r) = [Solve_main False, Handle_main_optimal, Call_after_main_solve,
             Solve_main True, Handle_regularization_main_tc, Algorithm_should_terminate True,
             Solve_subproblem None, Handle_nlp_subproblem_tc, Call_after_subproblem_solve,
             Algorithm_should_terminate False]
     \<and> first_main_solve (log_of r) = Some False"
    by (simp add: block_defs example_defs log_of_def)
  then obtain r where r: "MindtPy_iteration_loop (Suc 0) example_collaborators ?c (?s, []) = Some r"
    "map fst (log_of r) = [Solve_main False, Handle_main_optimal, Call_after_main_solve,
             Solve_main True, Handle_regularization_main_tc, Algorithm_should_terminate True,
             Solve_subproblem None, Handle_nlp_subproblem_tc, Call_after_subproblem_solve,
             Algorithm_should_terminate False]"
    "first_main_solve (log_of r) = Some False"
    by auto
  from no_premature_regularization [OF r(1)] have "first_main_solve (log_of r) \<noteq> Some True"
    by auto
  with r show ?thesis by simp
qed



text \<open>
  Single-tree mode with CPLEX and \<^verbatim>\<open>heuristic_nonconvex\<close>.
\<close>

theorem check_config_single_tree_witness:
  "single_tree (example_config\<lparr>single_tree := True, mip_solver := ''cplex_persistent'', heuristic_nonconvex := True\<rparr>)
   \<and> mip_solver (example_config\<lparr>single_tree := True, mip_solver := ''cplex_persistent'', heuristic_nonconvex := True\<rparr>)
       \<in> {''cplex_persistent'', ''gurobi_persistent''}
   \<and> map_sum fst (iteration_limit \<circ> fst)
        (check_config example_collaborators
           (example_config\<lparr>single_tree := True, mip_solver := ''cplex_persistent'', heuristic_nonconvex := True\<rparr>)
           example_solver) = Inr 1
   \<and> map_sum fst (add_slack \<circ> fst)
        (check_config example_collaborators
           (example_config\<lparr>single_tree := True, mip_solver := ''cplex_persistent'', heuristic_nonconvex := True\<rparr>)
           example_solver) = Inr True
   \<and> map_sum fst (solution_pool \<circ> fst)
        (check_config example_collaborators
           (example_config\<lparr>single_tree := True, mip_solver := ''cplex_persistent'', heuristic_nonconvex := True\<rparr>)
           example_solver) = Inr False"
  using check_config_single_tree [of "example_config\<lparr>single_tree := True, mip_solver := ''cplex_persistent'', heuristic_nonconvex := True\<rparr>"
      example_collaborators example_solver]
  by (auto simp add: example_config_def example_collaborators_def)

text \<open>
  Claim C6 as stated fails: in single-tree mode with \<^verbatim>\<open>heuristic_nonconvex\<close> set,
  \<^verbatim>\<open>check_config\<close> returns with \<^verbatim>\<open>add_slack\<close> true.
\<close>

theorem add_slack_counterexample:
  "single_tree (example_config\<lparr>single_tree := True, mip_solver := ''cplex_persistent'', heuristic_nonconvex := True\<rparr>)
   \<and> map_sum fst (add_slack \<circ> fst)
        (check_config example_collaborators
           (example_config\<lparr>single_tree := True, mip_solver := ''cplex_persistent'', heuristic_nonconvex := True\<rparr>)
           example_solver) = Inr True"
  by (simp add: check_config_def check_regularization_def check_single_tree_def check_relaxation_def
      example_config_def example_collaborators_def Let_def)

text \<open>
  Two cuts and two explored assignments: the second cut is deactivated, the second
  assignment is removed.
\<close>

theorem eviction_frame_witness:
  "add_no_good_cuts (example_config\<lparr>add_no_good_cuts := True, use_tabu_list := True\<rparr>)
   \<and> [\<lparr>con_active = True, con_body = 7\<rparr>, \<lparr>con_active = True, con_body = 8\<rparr>] \<noteq> []
   \<and> deactivate_no_good_cuts_when_fixing_bound
     (example_config\<lparr>add_no_good_cuts := True, use_tabu_list := True\<rparr>)
     [\<lparr>con_active = True, con_body = 7\<rparr>, \<lparr>con_active = True, con_body = 8\<rparr>]
     (example_solver\<lparr>integer_list := [[0, 0, 1], [1, 0, 1]]\<rparr>)
   = Inr ([\<lparr>con_active = True, con_body = 7\<rparr>, \<lparr>con_active = False, con_body = 8\<rparr>],
          example_solver\<lparr>integer_list := [[0, 0, 1]]\<rparr>)"
  using eviction_frame [of "example_config\<lparr>add_no_good_cuts := True, use_tabu_list := True\<rparr>"
      "[\<lparr>con_active = True, con_body = 7\<rparr>, \<lparr>con_active = True, con_body = 8\<rparr>]"
      "example_solver\<lparr>integer_list := [[0, 0, 1], [1, 0, 1]]\<rparr>"]
  by (auto simp add: example_config_def)

text \<open>
  Claim C5 as stated fails: with both options set and an empty no-good cut list,
  line 416 raises \<^verbatim>\<open>KeyError\<close> before line 418 is reached, and \<^verbatim>\<open>integer_list\<close> keeps
  its last element.
\<close>

theorem eviction_empty_list_counterexample:
  "add_no_good_cuts (example_config\<lparr>add_no_good_cuts := True, use_tabu_list := True\<rparr>)
   \<and> use_tabu_list (example_config\<lparr>add_no_good_cuts := True, use_tabu_list := True\<rparr>)
   \<and> deactivate_no_good_cuts_when_fixing_bound
     (example_config\<lparr>add_no_good_cuts := True, use_tabu_list := True\<rparr>)
     []
     (example_solver\<lparr>integer_list := [[0, 0, 1], [1, 0, 1]]\<rparr>)
   = Inl (KeyError, [], example_solver\<lparr>integer_list := [[0, 0, 1], [1, 0, 1]]\<rparr>)"
  by (simp add: deactivate_no_good_cuts_when_fixing_bound_def constraint_list_index_def
      example_config_def)

text \<open>
  The example model: kept with no regularization, undone with \<^verbatim>\<open>level_L1\<close> and a
  solver that handles degree 2.
\<close>

theorem epigraph_undone_iff_witness:
  "epigraph_flags example_model = Some (False, True, True)
   \<and> use_original_objective example_config {0, 1, 2} example_model = Inr example_model
   \<and> map_sum fst epigraph_flags
        (use_original_objective (example_config\<lparr>add_regularization := Some ''level_L1''\<rparr>) {0, 1, 2}
           example_model) = Inr (Some (True, False, False))
   \<and> map_sum fst epigraph_flags
        (use_original_objective (example_config\<lparr>add_regularization := Some ''level_L1''\<rparr>) {0, 1}
           example_model) = Inr (Some (False, True, True))"
proof -
  have h: "epigraph_flags example_model = Some (False, True, True)"
    by (simp add: epigraph_flags_def example_model_def)
  have d: "original_degree example_model = Some 2"
    by (simp add: original_degree_def example_model_def)
  from epigraph_undone_iff [OF h, of example_config "{0, 1, 2}"]
    epigraph_undone_iff [OF h, of "example_config\<lparr>add_regularization := Some ''level_L1''\<rparr>" "{0, 1, 2}"]
    epigraph_undone_iff [OF h, of "example_config\<lparr>add_regularization := Some ''level_L1''\<rparr>" "{0, 1}"]
  show ?thesis using h d by (auto simp add: example_config_def)
qed

text \<open>
  The example model in single-tree mode, split twice: two constraints and both
  objectives inactive in each relaxation.
\<close>

theorem split_twice_witness:
  "map_sum fst (constraint_count \<circ> mip \<circ> fst)
     (initialize_mip_problem example_collaborators (example_config\<lparr>single_tree := True\<rparr>)
        (example_solver, [])) = Inr 2
   \<and> map_sum fst (map obj_active \<circ> objectives \<circ> mip \<circ> fst)
     (initialize_mip_problem example_collaborators (example_config\<lparr>single_tree := True\<rparr>)
        (example_solver, [])) = Inr [False, False]
   \<and> map_sum fst (constraint_count \<circ> mip \<circ> fst)
     (initialize_mip_problem example_collaborators (example_config\<lparr>single_tree := True\<rparr>)
        (projr (initialize_mip_problem example_collaborators (example_config\<lparr>single_tree := True\<rparr>)
           (example_solver, [])))) = Inr 2
   \<and> map_sum fst (map obj_sense \<circ> objectives \<circ> mip \<circ> fst)
     (initialize_mip_problem example_collaborators (example_config\<lparr>single_tree := True\<rparr>)
        (projr (initialize_mip_problem example_collaborators (example_config\<lparr>single_tree := True\<rparr>)
           (example_solver, [])))) = Inr [minimize, minimize]
   \<and> map_sum fst (map obj_active \<circ> objectives \<circ> mip \<circ> fst)
     (initialize_mip_problem example_collaborators (example_config\<lparr>single_tree := True\<rparr>)
        (projr (initialize_mip_problem example_collaborators (example_config\<lparr>single_tree := True\<rparr>)
           (example_solver, [])))) = Inr [False, False]"
proof -
  let ?c = "example_config\<lparr>single_tree := True\<rparr>"
  have "\<exists>st1. initialize_mip_problem example_collaborators ?c (example_solver, []) = Inr st1
          \<and> constraint_count (mip (fst st1)) = 2
          \<and> map obj_sense (objectives (mip (fst st1))) = [minimize, minimize]
          \<and> map obj_active (objectives (mip (fst st1))) = [False, False]"
    by (simp add: initialize_mip_problem_def example_config_def example_solver_def example_model_def
        example_collaborators_def call_def assign_def Let_def set_obj_active_def declare_oa_cuts_def
        new_oa_cuts_def constraint_count_def)
  then obtain st1 where st1: "initialize_mip_problem example_collaborators ?c (example_solver, []) = Inr st1"
    "constraint_count (mip (fst st1)) = 2"
    "map obj_sense (objectives (mip (fst st1))) = [minimize, minimize]"
    "map obj_active (objectives (mip (fst st1))) = [False, False]" by auto
  have b: "single_tree ?c \<longrightarrow> (\<forall>m. objectives (add_var_bound example_collaborators m ?c) = objectives m
          \<and> constraints (add_var_bound example_collaborators m ?c) = constraints m
          \<and> dual (add_var_bound example_collaborators m ?c) = dual m
          \<and> MindtPy_utils (add_var_bound example_collaborators m ?c) = MindtPy_utils m)"
    by (simp add: example_collaborators_def)
  have nofp: "\<not> (init_strategy ?c = ''FP'' \<and> fp_projcuts ?c)"
    by (simp add: example_config_def)
  from split_twice [OF st1(1) b] nofp st1 show ?thesis by auto
qed

text \<open>
  Claim C9 as stated fails: with the feasibility pump and \<^verbatim>\<open>fp_projcuts\<close>, the first
  split of the example model succeeds and the second one raises \<^verbatim>\<open>RuntimeError\<close>.
\<close>

theorem split_twice_counterexample:
  "fp_projcuts (example_config\<lparr>init_strategy := ''FP''\<rparr>)
   \<and> map_sum fst (constraint_count \<circ> mip \<circ> fst)
     (initialize_mip_problem example_collaborators (example_config\<lparr>init_strategy := ''FP''\<rparr>)
        (example_solver, [])) = Inr 2
   \<and> map_sum fst (constraint_count \<circ> mip \<circ> fst)
     (initialize_mip_problem example_collaborators (example_config\<lparr>init_strategy := ''FP''\<rparr>)
        (projr (initialize_mip_problem example_collaborators (example_config\<lparr>init_strategy := ''FP''\<rparr>)
           (example_solver, [])))) = Inl RuntimeError"
  by (simp add: initialize_mip_problem_def example_config_def example_solver_def example_model_def
      example_collaborators_def call_def assign_def Let_def set_obj_active_def declare_oa_cuts_def
      declare_fp_orthogonality_cuts_def new_oa_cuts_def new_fp_orthogonality_cuts_def
      constraint_count_def)

text \<open>
  Single-tree mode with GLPK.
\<close>

theorem value_error_at_setup_only_witness:
  "single_tree (example_config\<lparr>single_tree := True\<rparr>)
   \<and> mip_solver (example_config\<lparr>single_tree := True\<rparr>) \<notin> {''cplex_persistent'', ''gurobi_persistent''}
   \<and> map_option (map_sum fst fst)
        (solve 0 example_collaborators (example_config\<lparr>single_tree := True\<rparr>) example_model example_solver)
       = Some (Inl ValueError)
   \<and> map_option (map_sum (snd \<circ> snd) (snd \<circ> snd))
        (solve 0 example_collaborators (example_config\<lparr>single_tree := True\<rparr>) example_model example_solver)
       = Some (Inl (example_solver, []))"
  using value_error_at_setup_only [of "example_config\<lparr>single_tree := True\<rparr>" example_collaborators
      example_solver 0 example_model]
  by (auto simp add: example_config_def)

text \<open>
  A run with no-good cuts and no regularization: the bound correction is called.
\<close>

theorem bound_correction_iff_witness:
  "map_option (map_sum fst fst)
     (while_loop (Suc 0) example_collaborators (example_config\<lparr>add_no_good_cuts := True\<rparr>) False
        (example_solver, [])) = Some (Inr False)
   \<and> map_option (map_sum fst (map fst \<circ> snd))
     (MindtPy_iteration_loop (Suc 0) example_collaborators (example_config\<lparr>add_no_good_cuts := True\<rparr>)
        (example_solver, []))
     = Some (Inr [Solve_main False, Handle_main_optimal, Call_after_main_solve,
                  Algorithm_should_terminate True, Solve_subproblem None, Handle_nlp_subproblem_tc,
                  Call_after_subproblem_solve, Algorithm_should_terminate False,
                  Fix_dual_bound False])"
proof -
  let ?c = "example_config\<lparr>add_no_good_cuts := True\<rparr>"
  have "\<exists>st1. while_loop (Suc 0) example_collaborators ?c False (example_solver, []) = Some (Inr (False, st1))
          \<and> \<not> should_terminate (fst st1)
          \<and> map fst (snd st1) = [Solve_main False, Handle_main_optimal, Call_after_main_solve,
                  Algorithm_should_terminate True, Solve_subproblem None, Handle_nlp_subproblem_tc,
                  Call_after_subproblem_solve, Algorithm_should_terminate False]"
    by (simp add: block_defs example_defs)
  then obtain st1 where w: "while_loop (Suc 0) example_collaborators ?c False (example_solver, []) = Some (Inr (False, st1))"
    "\<not> should_terminate (fst st1)"
    "map fst (snd st1) = [Solve_main False, Handle_main_optimal, Call_after_main_solve,
                  Algorithm_should_terminate True, Solve_subproblem None, Handle_nlp_subproblem_tc,
                  Call_after_subproblem_solve, Algorithm_should_terminate False]" by auto
  have c: "add_no_good_cuts ?c" "add_regularization ?c = None"
    by (simp_all add: example_config_def)
  from bound_correction_iff [OF w(1)] w c show ?thesis
    by (auto simp add: bound_correction_def)
qed

text \<open>
  Claim C4 as stated fails: with no-good cuts enabled and \<^verbatim>\<open>should_terminate\<close> false
  at loop exit, a run with \<^verbatim>\<open>level_L1\<close> regularization never calls
  \<^verbatim>\<open>fix_dual_bound\<close>.
\<close>

theorem bound_correction_counterexample:
  "add_no_good_cuts (example_config\<lparr>add_no_good_cuts := True, add_regularization := Some ''level_L1''\<rparr>)
   \<and> map_option (map_sum fst (should_terminate \<circ> fst))
        (MindtPy_iteration_loop (Suc 0) example_collaborators
           (example_config\<lparr>add_no_good_cuts := True, add_regularization := Some ''level_L1''\<rparr>)
           (example_solver, [])) = Some (Inr False)
   \<and> map_option (map_sum fst (map fst \<circ> snd))
        (MindtPy_iteration_loop (Suc 0) example_collaborators
           (example_config\<lparr>add_no_good_cuts := True, add_regularization := Some ''level_L1''\<rparr>)
           (example_solver, []))
       = Some (Inr [Solve_main False, Handle_main_optimal, Call_after_main_solve,
                    Algorithm_should_terminate True, Solve_subproblem None, Handle_nlp_subproblem_tc,
                    Call_after_subproblem_solve, Algorithm_should_terminate False])"
  by (simp add: block_defs example_defs)



text \<open>
  The example model solved from a fresh solver object and from one that holds an
  incumbent of an earlier run: the same results.
\<close>

theorem solve_ignores_old_incumbent_witness:
  "setup_incumbent_blind example_collaborators example_model
   \<and> outcome (solve (Suc 0) example_collaborators example_config example_model
                (example_solver\<lparr>best_solution_found := Some example_model,
                                best_solution_found_time := Some 3\<rparr>))
       = outcome (solve (Suc 0) example_collaborators example_config example_model example_solver)
   \<and> outcome (solve (Suc 0) example_collaborators example_config example_model example_solver)
       = Some (Inr (Some \<lparr>num_nodes = None, results_info = 0\<rparr>))"
proof -
  have b: "setup_incumbent_blind example_collaborators example_model"
    by (simp add: setup_incumbent_blind_def incumbent_blind_def reset_incumbent_def
        example_collaborators_def)
  have r: "outcome (solve (Suc 0) example_collaborators example_config example_model example_solver)
       = Some (Inr (Some \<lparr>num_nodes = None, results_info = 0\<rparr>))"
    by (simp add: solve_def solve_setup_def prepare_model_def solve_run_def check_config_def
        check_regularization_def check_single_tree_def check_relaxation_def regularization_type_def
        use_original_objective_def initialize_mip_problem_def set_obj_active_def declare_oa_cuts_def
        new_oa_cuts_def outcome_def block_defs example_defs)
  from solve_ignores_old_incumbent [OF b, where fuel = "Suc 0" and options = example_config
      and s = example_solver and x = "Some example_model" and t = "Some 3"] b r
  show ?thesis by simp
qed

end
